theory Spec2Isabelle
  imports Main "HOL-Library.AList" "HOL-Library.Sublist"
begin

section \<open>Quantum Travel AI backend: the model of \<open>backend/main.py\<close>\<close>

subsection \<open>Python values\<close>

text \<open>
  A Python \<open>str\<close> is a sequence of Unicode code points, so a string is a list of
  code points. \<open>lit\<close> turns an ASCII literal of the source into such a list.
\<close>

type_synonym str = "nat list"

definition lit :: "string \<Rightarrow> str" where
  "lit s = map of_char s"

text \<open>
  \<open>str.isspace\<close> on one code point: the code points CPython's
  \<open>_PyUnicode_IsWhitespace\<close> accepts. \<open>str.split()\<close> without arguments splits at
  runs of them and drops the empty pieces.
\<close>

definition isspace :: "nat \<Rightarrow> bool" where
  "isspace c \<longleftrightarrow>
     (9 \<le> c \<and> c \<le> 13) \<or> (28 \<le> c \<and> c \<le> 32) \<or> c = 133 \<or> c = 160 \<or> c = 5760 \<or>
     (8192 \<le> c \<and> c \<le> 8202) \<or> c = 8232 \<or> c = 8233 \<or> c = 8239 \<or> c = 8287 \<or> c = 12288"

fun split_from :: "str \<Rightarrow> str \<Rightarrow> str list" where
  "split_from word [] = (if word = [] then [] else [word])"
| "split_from word (c # cs) =
     (if isspace c then (if word = [] then split_from [] cs else word # split_from [] cs)
      else split_from (word @ [c]) cs)"

definition str_split :: "str \<Rightarrow> str list" where
  "str_split s = split_from [] s"

text \<open>
  The number of whitespace-separated tokens of a text, said directly: the number of
  places where a token starts, that is a code point that is not whitespace and is the
  first of the text or follows a whitespace code point.
\<close>

fun token_starts :: "bool \<Rightarrow> str \<Rightarrow> nat" where
  "token_starts after_space [] = 0"
| "token_starts after_space (c # cs) =
     (if isspace c then token_starts True cs
      else (if after_space then 1 else 0) + token_starts False cs)"

definition whitespace_tokens :: "str \<Rightarrow> nat" where
  "whitespace_tokens s = token_starts True s"

text \<open>
  The values \<open>json.loads\<close> returns and \<open>json.dumps\<close> takes. A float keeps the
  text of its \<open>repr\<close>: the program never computes with one. An object is the
  \<open>dict\<close>, in key order.
\<close>

datatype json =
    JNull
  | JBool bool
  | JInt int
  | JFloat str
  | JStr str
  | JArr "json list"
  | JObj "(str \<times> json) list"

text \<open>
  Exceptions, each an instance of \<open>Exception\<close>, with what identifies them; the last
  stands for any other class, with the text of the exception.
\<close>

datatype exn =
    WebSocketDisconnect
  | JSONDecodeError str
  | AttributeError str
  | KeyError str
  | ValidationError str
  | RuntimeError str
  | OtherException str

text \<open>
  \<open>datetime.utcnow()\<close>: the \<open>n\<close>-th call of a run returns \<open>utcnow n\<close>. The program
  reads a datetime in two ways only, and the model keeps both texts:
  \<open>isoformat\<close> is the text of \<open>.isoformat()\<close>, and \<open>posix_timestamp\<close> is the text an
  f-string gives for the float \<open>.timestamp()\<close>, which is the float's \<open>repr\<close>; \<open>repr\<close>
  round-trips, so two floats have the same text only if they are the same float.
\<close>

record datetime =
  isoformat :: str
  posix_timestamp :: str

type_synonym clock = "nat \<Rightarrow> datetime"

subsection \<open>Data models and the in-memory storage\<close>

text \<open>The entries of a conversation's history: the dicts built in \<open>chat\<close>.\<close>

record chat_message =
  role :: str
  content :: str
  timestamp :: str

text \<open>
  \<open>ChatRequest\<close>. The fields \<open>temperature\<close> and \<open>max_tokens\<close> are never read by
  the handlers and are left out.
\<close>

record chat_request =
  message :: str
  conversation_id :: "str option"
  model :: "str option"

text \<open>\<open>ChatResponse\<close>.\<close>

record chat_response =
  response :: str
  response_conversation_id :: str
  response_model :: str
  response_timestamp :: str
  tokens_used :: "nat option"

text \<open>\<open>ModelInfo\<close> and the catalog \<open>supported_models\<close>.\<close>

record model_info =
  name :: str
  description :: str
  capabilities :: "str list"
  version :: str
  status :: str

definition supported_models :: "(str \<times> model_info) list" where
  "supported_models =
    [(lit ''quantum-ai'',
      \<lparr>name = lit ''Quantum AI'',
       description = lit ''Advanced quantum-enhanced AI model with superior reasoning'',
       capabilities =
         [lit ''Natural language understanding'',
          lit ''Code generation and analysis'',
          lit ''Mathematical computations'',
          lit ''Multi-language support'',
          lit ''Context-aware responses'',
          lit ''Real-time information retrieval''],
       version = lit ''1.0.0'',
       status = lit ''active''\<rparr>),
     (lit ''quantum-pro'',
      \<lparr>name = lit ''Quantum Pro'',
       description = lit ''Professional-grade AI with enhanced capabilities'',
       capabilities =
         [lit ''All Quantum AI features'',
          lit ''Advanced data analysis'',
          lit ''Document processing'',
          lit ''Image understanding'',
          lit ''Complex reasoning'',
          lit ''Custom plugin support''],
       version = lit ''1.0.0'',
       status = lit ''active''\<rparr>)]"

text \<open>
  A text frame sent on a channel: a plain text, or the text \<open>json.dumps\<close> gives for a
  value (the value stands for its text).
\<close>

datatype text_frame = Text str | JsonDumps json

text \<open>A \<open>WebSocket\<close> object is known by its identity.\<close>

type_synonym websocket = nat

text \<open>What \<open>logger.info\<close> and \<open>logger.error\<close> record; the fields are what the f-string shows.\<close>

datatype log_record =
    InfoConnected str nat
  | InfoDisconnected str nat
  | ErrorChat exn
  | ErrorWebSocket exn

text \<open>
  The state of the process. A \<open>dict\<close> is an association list in insertion order with
  one entry for each key: \<open>map_of\<close> reads it, \<open>AList.update\<close> is \<open>d[k] = v\<close> and
  \<open>AList.delete\<close> is \<open>del d[k]\<close>. \<open>connections\<close> is \<open>manager.active_connections\<close>;
  \<open>sent\<close> lists the frames the channels have delivered, \<open>logged\<close> the log, and
  \<open>ticks\<close> counts the calls of \<open>datetime.utcnow()\<close>.
\<close>

record world =
  conversation_history :: "(str \<times> chat_message list) list"
  connections :: "(str \<times> websocket) list"
  sent :: "(websocket \<times> text_frame) list"
  logged :: "log_record list"
  ticks :: nat

text \<open>The state when the process starts: both dicts are empty.\<close>

definition initial_world :: world where
  "initial_world = \<lparr>conversation_history = [], connections = [], sent = [], logged = [], ticks = 0\<rparr>"

definition now :: "clock \<Rightarrow> world \<Rightarrow> datetime \<times> world" where
  "now utcnow w = (utcnow (ticks w), w\<lparr>ticks := Suc (ticks w)\<rparr>)"

definition logger :: "log_record \<Rightarrow> world \<Rightarrow> world" where
  "logger r w = w\<lparr>logged := logged w @ [r]\<rparr>"

subsection \<open>\<open>ConnectionManager\<close>\<close>

text \<open>
  \<open>send_text\<close> of a channel: \<open>raises ws\<close> is the exception the channel \<open>ws\<close> raises
  when it is asked to send (a connection that has gone), or \<open>None\<close> when it delivers.
  The handshake \<open>accept\<close> of a connection that is being opened changes nothing here.
  A function that returns nothing gives \<open>None\<close>, or \<open>Some e\<close> when it raises \<open>e\<close>,
  next to the state it leaves.
\<close>

type_synonym channels = "websocket \<Rightarrow> exn option"

definition send_text :: "channels \<Rightarrow> websocket \<Rightarrow> text_frame \<Rightarrow> world \<Rightarrow> exn option \<times> world" where
  "send_text raises ws frame w =
     (case raises ws of
        Some e \<Rightarrow> (Some e, w)
      | None \<Rightarrow> (None, w\<lparr>sent := sent w @ [(ws, frame)]\<rparr>))"

definition connect :: "websocket \<Rightarrow> str \<Rightarrow> world \<Rightarrow> world" where
  "connect ws client_id w =
     (let w1 = w\<lparr>connections := AList.update client_id ws (connections w)\<rparr>
      in logger (InfoConnected client_id (length (connections w1))) w1)"

definition disconnect :: "str \<Rightarrow> world \<Rightarrow> world" where
  "disconnect client_id w =
     (if map_of (connections w) client_id \<noteq> None
      then (let w1 = w\<lparr>connections := AList.delete client_id (connections w)\<rparr>
            in logger (InfoDisconnected client_id (length (connections w1))) w1)
      else w)"

definition send_message :: "channels \<Rightarrow> text_frame \<Rightarrow> str \<Rightarrow> world \<Rightarrow> exn option \<times> world" where
  "send_message raises frame client_id w =
     (case map_of (connections w) client_id of
        Some ws \<Rightarrow> send_text raises ws frame w
      | None \<Rightarrow> (None, w))"

text \<open>
  While a send is awaited other sessions run, and what they do to the registry is all
  that concerns \<open>broadcast\<close>: a \<open>manager.connect\<close> or a \<open>manager.disconnect\<close>.
  \<open>during k\<close> lists what they do while the \<open>k\<close>-th send of a broadcast is awaited.
\<close>

datatype registry_event = Connects websocket str | Disconnects str

type_synonym interference = "nat \<Rightarrow> registry_event list"

fun registry_events :: "registry_event list \<Rightarrow> world \<Rightarrow> world" where
  "registry_events [] w = w"
| "registry_events (Connects ws client_id # events) w = registry_events events (connect ws client_id w)"
| "registry_events (Disconnects client_id # events) w = registry_events events (disconnect client_id w)"

text \<open>Whether the events add an entry to the registry or delete one.\<close>

fun changes_keys :: "registry_event list \<Rightarrow> world \<Rightarrow> bool" where
  "changes_keys [] w = False"
| "changes_keys (Connects ws client_id # events) w =
     (map_of (connections w) client_id = None \<or> changes_keys events (connect ws client_id w))"
| "changes_keys (Disconnects client_id # events) w =
     (changes_keys events (disconnect client_id w) \<or> map_of (connections w) client_id \<noteq> None)"

text \<open>
  The \<open>for\<close> loop of \<open>broadcast\<close> over \<open>active_connections.values()\<close>. The view is
  live: the iterator keeps the size \<open>n\<close> the dict had when the loop began and its
  position \<open>pos\<close>, and each step reads the dict as it is then. A step first compares the
  size and raises \<open>RuntimeError\<close> when it has changed, also when all entries have been
  visited. An entry whose value was replaced keeps its place. Where entries were both
  added and deleted and the size is the same, Python leaves open what the iteration does
  (it may raise or pass over entries: that depends on the layout of the table), and the
  outcome is the parameter \<open>left_open\<close>. A send that raises is taken to raise at once.
\<close>

function broadcast_loop :: "channels \<Rightarrow> interference \<Rightarrow> (nat \<Rightarrow> world \<Rightarrow> exn option \<times> world) \<Rightarrow> nat \<Rightarrow> nat \<Rightarrow> text_frame \<Rightarrow> world \<Rightarrow> exn option \<times> world" where
  "broadcast_loop raises during left_open n pos frame w =
     (if length (connections w) \<noteq> n
        then (Some (RuntimeError (lit ''dictionary changed size during iteration'')), w)
      else if n \<le> pos then (None, w)
      else case send_text raises (snd (connections w ! pos)) frame w of
             (Some e, w1) \<Rightarrow> (Some e, w1)
           | (None, w1) \<Rightarrow>
               if changes_keys (during pos) w1 \<and>
                  length (connections (registry_events (during pos) w1)) = n
                 then left_open (Suc pos) (registry_events (during pos) w1)
               else broadcast_loop raises during left_open n (Suc pos) frame
                      (registry_events (during pos) w1))"
  by pat_completeness auto
termination
  by (relation "measure (\<lambda>(raises, during, left_open, n, pos, frame, w). n - pos)") auto

declare broadcast_loop.simps [simp del]

definition broadcast :: "channels \<Rightarrow> interference \<Rightarrow> (nat \<Rightarrow> world \<Rightarrow> exn option \<times> world) \<Rightarrow> text_frame \<Rightarrow> world \<Rightarrow> exn option \<times> world" where
  "broadcast raises during left_open frame w =
     broadcast_loop raises during left_open (length (connections w)) 0 frame w"

subsection \<open>\<open>AIEngine\<close>\<close>

fun join_lines :: "str list \<Rightarrow> str" where
  "join_lines [] = []"
| "join_lines [l] = l"
| "join_lines (l # ls) = l @ 10 # join_lines ls"

definition greeting_text :: "str" where
  "greeting_text = lit ''Hello! I'm Quantum Travel AI, your advanced AI assistant. How can I help you today? I can assist with coding, problem-solving, data analysis, and much more!''"

definition code_text :: "str" where
  "code_text = join_lines
    [lit ''I can help you with coding! Here's an example of what I can do:'',
     [],
     lit ''```python'',
     lit ''def quantum_algorithm(data):'',
     lit ''    '' @ [39, 39, 39],
     lit ''    Advanced algorithm with quantum-inspired optimization'',
     lit ''    '' @ [39, 39, 39],
     lit ''    result = []'',
     lit ''    for item in data:'',
     lit ''        processed = item ** 2  # Example processing'',
     lit ''        result.append(processed)'',
     lit ''    return result'',
     [],
     lit ''# Usage'',
     lit ''data = [1, 2, 3, 4, 5]'',
     lit ''output = quantum_algorithm(data)'',
     lit ''print(output)  # [1, 4, 9, 16, 25]'',
     lit ''```'',
     [],
     lit ''Would you like me to explain this code or help with a specific programming task?'']"

definition math_text :: "str" where
  "math_text = join_lines
    [lit ''I can help with mathematical computations! Here's an example:'',
     [],
     lit ''**Problem**: Solve for x: 2x + 5 = 15'',
     [],
     lit ''**Solution**:'',
     lit ''1. Subtract 5 from both sides: 2x = 10'',
     lit ''2. Divide both sides by 2: x = 5'',
     [],
     lit ''**Answer**: x = 5'',
     [],
     lit ''I can handle complex equations, calculus, linear algebra, statistics, and more. What would you like to calculate?'']"

definition information_text :: "str \<Rightarrow> str" where
  "information_text msg = join_lines
    [lit ''Great question! As Quantum Travel AI, I'm designed to provide comprehensive answers.'',
     [],
     lit ''Based on your query: '' @ [34] @ msg @ [34],
     [],
     lit ''I can help you understand complex concepts through:'',
     lit ''- Detailed explanations with examples'',
     lit ''- Step-by-step breakdowns'',
     lit ''- Visual representations'',
     lit ''- Real-world applications'',
     lit ''- Related resources and references'',
     [],
     lit ''Could you provide more specific details about what you'd like to know? This will help me give you a more targeted and useful response.'']"

definition capabilities_text :: "str" where
  "capabilities_text = join_lines
    [lit ''Here's what I can do as Quantum Travel AI:'',
     [],
     [128640] @ lit '' **Core Capabilities**:'',
     lit ''- Natural language conversations'',
     lit ''- Code generation and debugging'',
     lit ''- Mathematical problem solving'',
     lit ''- Data analysis and visualization'',
     lit ''- Multi-language support'',
     lit ''- Real-time information retrieval'',
     [],
     [128161] @ lit '' **Advanced Features**:'',
     lit ''- Context-aware responses'',
     lit ''- File processing (documents, images)'',
     lit ''- Web search integration'',
     lit ''- Collaborative features'',
     lit ''- Custom plugin support'',
     [],
     [127760] @ lit '' **Global Support**:'',
     lit ''- Available 24/7'',
     lit ''- Multi-language understanding'',
     lit ''- Cultural context awareness'',
     [],
     lit ''How can I assist you specifically?'']"

definition default_text :: "str \<Rightarrow> str" where
  "default_text msg = join_lines
    [lit ''Thank you for your message! I'm Quantum Travel AI, and I'm here to help.'',
     [],
     lit ''You said: '' @ [34] @ msg @ [34],
     [],
     lit ''I understand you're looking for assistance. I can help with:'',
     lit ''- **Technical Questions**: Programming, algorithms, system design'',
     lit ''- **Problem Solving**: Mathematical, logical, analytical challenges'',
     lit ''- **Information**: Explanations, research, data analysis'',
     lit ''- **Creative Tasks**: Writing, brainstorming, content creation'',
     [],
     lit ''Please feel free to ask me anything specific, and I'll provide detailed, helpful responses tailored to your needs!'']"

text \<open>\<open>any(word in message_lower for word in words)\<close>; \<open>in\<close> on two texts is the substring test.\<close>

definition any_in :: "string list \<Rightarrow> str \<Rightarrow> bool" where
  "any_in words message_lower = list_ex (\<lambda>word. sublist (lit word) message_lower) words"

text \<open>
  A response generator takes the message, the model and the context as Python hands them
  over, and returns the text or raises. \<open>generate_response\<close> is the one of the source.
  It calls \<open>message.lower()\<close> first: only a \<open>str\<close> has that method. \<open>str.lower\<close> is
  Python's own, defined by the Unicode tables, and is the parameter \<open>lower\<close>;
  \<open>ascii_lower\<close> is what it does on ASCII text. The \<open>asyncio.sleep\<close> before it only
  suspends the caller.
\<close>

type_synonym generator = "json \<Rightarrow> json \<Rightarrow> chat_message list option \<Rightarrow> exn + str"

definition generate_response :: "(str \<Rightarrow> str) \<Rightarrow> generator" where
  "generate_response lower msg mdl context =
     (case msg of
        JStr text \<Rightarrow>
          (let message_lower = lower text in
           if any_in [''hello'', ''hi'', ''hey'', ''greetings''] message_lower
             then Inr greeting_text
           else if any_in [''code'', ''program'', ''function'', ''python'', ''javascript''] message_lower
             then Inr code_text
           else if any_in [''calculate'', ''math'', ''equation'', ''solve''] message_lower
             then Inr math_text
           else if any_in [''what'', ''how'', ''why'', ''explain''] message_lower
             then Inr (information_text text)
           else if any_in [''features'', ''capabilities'', ''can you'', ''abilities''] message_lower
             then Inr capabilities_text
           else Inr (default_text text))
      | _ \<Rightarrow> Inl (AttributeError (lit ''lower'')))"

definition ascii_lower :: "str \<Rightarrow> str" where
  "ascii_lower s = map (\<lambda>c. if 65 \<le> c \<and> c \<le> 90 then c + 32 else c) s"

subsection \<open>Routes\<close>

text \<open>
  \<open>HTTPException(status_code, detail)\<close>; the detail is \<open>str(e)\<close> of the exception
  caught, and the model keeps \<open>e\<close>. A handler that returns is answered with status 200
  and one that raises an \<open>HTTPException\<close> with its status code.
\<close>

datatype http_exception = HTTPException (status_code: nat) (detail: exn)

definition http_status :: "http_exception + 'a \<Rightarrow> nat" where
  "http_status result = (case result of Inl e \<Rightarrow> status_code e | Inr body \<Rightarrow> 200)"

text \<open>\<open>health_check\<close>, \<open>get_models\<close> and \<open>get_stats\<close>: each returns its dict.\<close>

definition health_check :: "clock \<Rightarrow> world \<Rightarrow> json \<times> world" where
  "health_check utcnow w =
     (let (t, w1) = now utcnow w
      in (JObj [(lit ''status'', JStr (lit ''healthy'')),
                (lit ''service'', JStr (lit ''Quantum Travel AI'')),
                (lit ''version'', JStr (lit ''1.0.0'')),
                (lit ''timestamp'', JStr (isoformat t)),
                (lit ''active_connections'', JInt (int (length (connections w1))))], w1))"

definition get_models :: "model_info list" where
  "get_models = map snd supported_models"

definition get_stats :: "world \<Rightarrow> json" where
  "get_stats w =
     JObj [(lit ''total_conversations'', JInt (int (length (conversation_history w)))),
           (lit ''active_connections'', JInt (int (length (connections w)))),
           (lit ''supported_models'', JInt (int (length supported_models))),
           (lit ''uptime'', JStr (lit ''operational'')),
           (lit ''version'', JStr (lit ''1.0.0''))]"

text \<open>
  \<open>conversation_history[conversation_id].append(entry)\<close>: the subscript raises
  \<open>KeyError\<close> on a key that is not there.
\<close>

definition history_append :: "str \<Rightarrow> chat_message \<Rightarrow> world \<Rightarrow> exn + world" where
  "history_append cid entry w =
     (case map_of (conversation_history w) cid of
        None \<Rightarrow> Inl (KeyError cid)
      | Some entries \<Rightarrow>
          Inr (w\<lparr>conversation_history := AList.update cid (entries @ [entry]) (conversation_history w)\<rparr>))"

text \<open>
  \<open>request.conversation_id or f"conv_{datetime.utcnow().timestamp()}"\<close>: the id of
  the request unless it is \<open>None\<close> or the empty text, which Python's \<open>or\<close> takes for
  false; the clock is read only then.
\<close>

definition conversation_id_or_new :: "clock \<Rightarrow> chat_request \<Rightarrow> world \<Rightarrow> str \<times> world" where
  "conversation_id_or_new utcnow request w =
     (case conversation_id request of
        Some c \<Rightarrow>
          if c \<noteq> [] then (c, w)
          else (let (t, w1) = now utcnow w in (lit ''conv_'' @ posix_timestamp t, w1))
      | None \<Rightarrow> (let (t, w1) = now utcnow w in (lit ''conv_'' @ posix_timestamp t, w1)))"

text \<open>\<open>if conversation_id not in conversation_history: conversation_history[conversation_id] = []\<close>.\<close>

definition create_if_missing :: "str \<Rightarrow> world \<Rightarrow> world" where
  "create_if_missing cid w =
     (if map_of (conversation_history w) cid = None
      then w\<lparr>conversation_history := AList.update cid [] (conversation_history w)\<rparr>
      else w)"

text \<open>The model argument the generator gets from \<open>chat\<close>: \<open>request.model\<close> as it is.\<close>

definition model_argument :: "chat_request \<Rightarrow> json" where
  "model_argument request = (case model request of None \<Rightarrow> JNull | Some m \<Rightarrow> JStr m)"

text \<open>
  The body of the \<open>try\<close> of \<open>chat\<close>. \<open>ChatResponse(...)\<close> validates its fields after
  they are all computed: its \<open>model\<close> is a \<open>str\<close>, and \<open>None\<close> is refused with a
  \<open>ValidationError\<close>.
\<close>

definition chat_try :: "generator \<Rightarrow> clock \<Rightarrow> chat_request \<Rightarrow> world \<Rightarrow> (exn + chat_response) \<times> world" where
  "chat_try generate utcnow request w =
     (let (cid, w1) = conversation_id_or_new utcnow request w;
          w2 = create_if_missing cid w1;
          (t_user, w3) = now utcnow w2;
          user_message = \<lparr>role = lit ''user'', content = message request, timestamp = isoformat t_user\<rparr>
      in case history_append cid user_message w3 of
           Inl e \<Rightarrow> (Inl e, w3)
         | Inr w4 \<Rightarrow>
             (case map_of (conversation_history w4) cid of
                None \<Rightarrow> (Inl (KeyError cid), w4)
              | Some entries \<Rightarrow>
                  (case generate (JStr (message request)) (model_argument request) (Some entries) of
                     Inl e \<Rightarrow> (Inl e, w4)
                   | Inr ai_response \<Rightarrow>
                       (let (t_assistant, w5) = now utcnow w4;
                            assistant_message =
                              \<lparr>role = lit ''assistant'', content = ai_response,
                               timestamp = isoformat t_assistant\<rparr>
                        in case history_append cid assistant_message w5 of
                             Inl e \<Rightarrow> (Inl e, w5)
                           | Inr w6 \<Rightarrow>
                               (let (t_response, w7) = now utcnow w6
                                in case model request of
                                     None \<Rightarrow> (Inl (ValidationError (lit ''model'')), w7)
                                   | Some m \<Rightarrow>
                                       (Inr \<lparr>response = ai_response,
                                             response_conversation_id = cid,
                                             response_model = m,
                                             response_timestamp = isoformat t_response,
                                             tokens_used =
                                               Some (length (str_split (message request)) +
                                                     length (str_split ai_response))\<rparr>,
                                        w7))))))"

text \<open>\<open>chat\<close>: the \<open>except Exception\<close> logs and raises \<open>HTTPException(500, str(e))\<close>.\<close>

definition chat :: "generator \<Rightarrow> clock \<Rightarrow> chat_request \<Rightarrow> world \<Rightarrow> (http_exception + chat_response) \<times> world" where
  "chat generate utcnow request w =
     (case chat_try generate utcnow request w of
        (Inl e, w1) \<Rightarrow> (Inl (HTTPException 500 e), logger (ErrorChat e) w1)
      | (Inr r, w1) \<Rightarrow> (Inr r, w1))"

text \<open>
  \<open>chat\<close> has one point where it is suspended and other handlers run: the \<open>await\<close> of the
  generator, whose body follows its \<open>asyncio.sleep\<close>. \<open>chat_begin\<close> is the \<open>try\<close> up to
  that point and leaves the conversation id, the one local variable used after it.
  \<open>chat_resume\<close> is the rest: the generator's body, which gets the list of the conversation
  by reference and so as it is by then (no operation removes a conversation or puts
  another list in its place), and what follows the \<open>await\<close>. \<open>chat_except\<close> is the
  handler of the \<open>try\<close>.
\<close>

definition chat_begin :: "clock \<Rightarrow> chat_request \<Rightarrow> world \<Rightarrow> (exn + str) \<times> world" where
  "chat_begin utcnow request w =
     (let (cid, w1) = conversation_id_or_new utcnow request w;
          w2 = create_if_missing cid w1;
          (t_user, w3) = now utcnow w2;
          user_message = \<lparr>role = lit ''user'', content = message request, timestamp = isoformat t_user\<rparr>
      in case history_append cid user_message w3 of
           Inl e \<Rightarrow> (Inl e, w3)
         | Inr w4 \<Rightarrow>
             (case map_of (conversation_history w4) cid of
                None \<Rightarrow> (Inl (KeyError cid), w4)
              | Some entries \<Rightarrow> (Inr cid, w4)))"

definition chat_resume :: "generator \<Rightarrow> clock \<Rightarrow> chat_request \<Rightarrow> str \<Rightarrow> world \<Rightarrow> (exn + chat_response) \<times> world" where
  "chat_resume generate utcnow request cid w4 =
     (case generate (JStr (message request)) (model_argument request)
             (Some (case map_of (conversation_history w4) cid of
                      None \<Rightarrow> []
                    | Some entries \<Rightarrow> entries)) of
        Inl e \<Rightarrow> (Inl e, w4)
      | Inr ai_response \<Rightarrow>
          (let (t_assistant, w5) = now utcnow w4;
               assistant_message =
                 \<lparr>role = lit ''assistant'', content = ai_response,
                  timestamp = isoformat t_assistant\<rparr>
           in case history_append cid assistant_message w5 of
                Inl e \<Rightarrow> (Inl e, w5)
              | Inr w6 \<Rightarrow>
                  (let (t_response, w7) = now utcnow w6
                   in case model request of
                        None \<Rightarrow> (Inl (ValidationError (lit ''model'')), w7)
                      | Some m \<Rightarrow>
                          (Inr \<lparr>response = ai_response,
                                response_conversation_id = cid,
                                response_model = m,
                                response_timestamp = isoformat t_response,
                                tokens_used =
                                  Some (length (str_split (message request)) +
                                        length (str_split ai_response))\<rparr>,
                           w7))))"

definition chat_except :: "(exn + chat_response) \<times> world \<Rightarrow> (http_exception + chat_response) \<times> world" where
  "chat_except outcome =
     (case outcome of
        (Inl e, w1) \<Rightarrow> (Inl (HTTPException 500 e), logger (ErrorChat e) w1)
      | (Inr r, w1) \<Rightarrow> (Inr r, w1))"

text \<open>
  The event loop with chat requests in flight. A request arrives and its handler runs to
  the \<open>await\<close>, where it waits with its request and conversation id; or the \<open>i\<close>-th of
  the waiting handlers is woken and runs to its end. The results are listed in the order
  in which the requests complete.
\<close>

datatype loop_event = Arrives chat_request | Wakes nat

fun serve :: "generator \<Rightarrow> clock \<Rightarrow> loop_event list \<Rightarrow> (chat_request \<times> str) list \<Rightarrow> world \<Rightarrow> (http_exception + chat_response) list \<times> world" where
  "serve generate utcnow [] waiting w = ([], w)"
| "serve generate utcnow (Arrives request # events) waiting w =
     (case chat_begin utcnow request w of
        (Inl e, w1) \<Rightarrow>
          (let (result, w2) = chat_except (Inl e, w1);
               (results, w3) = serve generate utcnow events waiting w2
           in (result # results, w3))
      | (Inr cid, w1) \<Rightarrow> serve generate utcnow events (waiting @ [(request, cid)]) w1)"
| "serve generate utcnow (Wakes i # events) waiting w =
     (if i < length waiting
      then (let (request, cid) = waiting ! i;
                (result, w1) = chat_except (chat_resume generate utcnow request cid w);
                (results, w2) =
                  serve generate utcnow events (take i waiting @ drop (Suc i) waiting) w1
            in (result # results, w2))
      else serve generate utcnow events waiting w)"

text \<open>\<open>get_history\<close> and the dict it returns.\<close>

record history =
  history_conversation_id :: str
  messages :: "chat_message list"

definition get_history :: "str \<Rightarrow> world \<Rightarrow> history" where
  "get_history cid w =
     (case map_of (conversation_history w) cid of
        Some entries \<Rightarrow> \<lparr>history_conversation_id = cid, messages = entries\<rparr>
      | None \<Rightarrow> \<lparr>history_conversation_id = cid, messages = []\<rparr>)"

subsection \<open>The WebSocket endpoint\<close>

text \<open>
  What the client does next, as \<open>websocket.receive_text()\<close> and \<open>json.loads\<close> see it:
  it has gone and \<open>receive_text\<close> raises \<open>WebSocketDisconnect\<close>; it sends a text that
  \<open>json.loads\<close> refuses with a \<open>JSONDecodeError\<close>; or it sends a text for which
  \<open>json.loads\<close> returns a value.
\<close>

datatype inbound = Disconnected | Malformed str | Parsed json

text \<open>
  One turn of the \<open>while True\<close> loop after \<open>receive_text\<close> has returned. Only a
  \<open>dict\<close> has \<open>.get\<close>. The generator is called without a context.
\<close>

definition handle_frame :: "generator \<Rightarrow> clock \<Rightarrow> channels \<Rightarrow> str \<Rightarrow> inbound \<Rightarrow> world \<Rightarrow> exn option \<times> world" where
  "handle_frame generate utcnow raises client_id data w =
     (case data of
        Disconnected \<Rightarrow> (Some WebSocketDisconnect, w)
      | Malformed text \<Rightarrow> (Some (JSONDecodeError text), w)
      | Parsed message_data \<Rightarrow>
          (case message_data of
             JObj obj \<Rightarrow>
               (let user_message =
                      (case map_of obj (lit ''message'') of Some v \<Rightarrow> v | None \<Rightarrow> JStr []);
                    mdl =
                      (case map_of obj (lit ''model'') of
                         Some v \<Rightarrow> v
                       | None \<Rightarrow> JStr (lit ''quantum-ai''))
                in case generate user_message mdl None of
                     Inl e \<Rightarrow> (Some e, w)
                   | Inr ai_response \<Rightarrow>
                       (let (t, w1) = now utcnow w
                        in send_message raises
                             (JsonDumps (JObj [(lit ''type'', JStr (lit ''message'')),
                                               (lit ''message'', JStr ai_response),
                                               (lit ''model'', mdl),
                                               (lit ''timestamp'', JStr (isoformat t))]))
                             client_id w1))
           | _ \<Rightarrow> (Some (AttributeError (lit ''get'')), w)))"

text \<open>
  The loop over what the client sends. When the client has sent nothing more, the loop
  is waiting in \<open>receive_text\<close> and nothing is raised.
\<close>

fun receive_loop :: "generator \<Rightarrow> clock \<Rightarrow> channels \<Rightarrow> str \<Rightarrow> inbound list \<Rightarrow> world \<Rightarrow> exn option \<times> world" where
  "receive_loop generate utcnow raises client_id [] w = (None, w)"
| "receive_loop generate utcnow raises client_id (data # rest) w =
     (case handle_frame generate utcnow raises client_id data w of
        (Some e, w1) \<Rightarrow> (Some e, w1)
      | (None, w1) \<Rightarrow> receive_loop generate utcnow raises client_id rest w1)"

text \<open>
  The body of the \<open>try\<close> of \<open>websocket_endpoint\<close>: the welcome message, then the
  loop.
\<close>

definition websocket_try :: "generator \<Rightarrow> clock \<Rightarrow> channels \<Rightarrow> str \<Rightarrow> inbound list \<Rightarrow> world \<Rightarrow> exn option \<times> world" where
  "websocket_try generate utcnow raises client_id frames w =
     (let (t, w1) = now utcnow w
      in case send_message raises
                (JsonDumps (JObj [(lit ''type'', JStr (lit ''connection'')),
                                  (lit ''message'', JStr (lit ''Connected to Quantum Travel AI'')),
                                  (lit ''client_id'', JStr client_id),
                                  (lit ''timestamp'', JStr (isoformat t))]))
                client_id w1 of
           (Some e, w2) \<Rightarrow> (Some e, w2)
         | (None, w2) \<Rightarrow> receive_loop generate utcnow raises client_id frames w2)"

text \<open>
  \<open>websocket_endpoint\<close>: \<open>manager.connect\<close>, the \<open>try\<close>, and its two handlers. The
  session is \<open>Open\<close> while the loop waits for the next frame, and \<open>Closed\<close> once a
  handler has run and the function has returned.
\<close>

datatype session = Open | Closed

definition websocket_endpoint :: "generator \<Rightarrow> clock \<Rightarrow> channels \<Rightarrow> websocket \<Rightarrow> str \<Rightarrow> inbound list \<Rightarrow> world \<Rightarrow> session \<times> world" where
  "websocket_endpoint generate utcnow raises ws client_id frames w =
     (case websocket_try generate utcnow raises client_id frames (connect ws client_id w) of
        (None, w1) \<Rightarrow> (Open, w1)
      | (Some WebSocketDisconnect, w1) \<Rightarrow> (Closed, disconnect client_id w1)
      | (Some e, w1) \<Rightarrow> (Closed, disconnect client_id (logger (ErrorWebSocket e) w1)))"

subsection \<open>The operations of the system\<close>

text \<open>
  One operation is one request served or one WebSocket connection with what its client
  sends; \<open>perform\<close> gives the state the operation leaves.
\<close>

datatype operation =
    PostChat chat_request
  | GetHistory str
  | WebSocket websocket str "inbound list"
  | GetStats
  | GetHealth
  | GetModels

definition perform :: "generator \<Rightarrow> clock \<Rightarrow> channels \<Rightarrow> operation \<Rightarrow> world \<Rightarrow> world" where
  "perform generate utcnow raises op w =
     (case op of
        PostChat request \<Rightarrow> snd (chat generate utcnow request w)
      | GetHistory cid \<Rightarrow> w
      | WebSocket ws client_id frames \<Rightarrow> snd (websocket_endpoint generate utcnow raises ws client_id frames w)
      | GetStats \<Rightarrow> w
      | GetHealth \<Rightarrow> snd (health_check utcnow w)
      | GetModels \<Rightarrow> w)"

text \<open>
  A clock for worked examples: its readings are one second apart, from
  2024-01-01T00:00:00 on (for the first ten readings).
\<close>

definition example_clock :: clock where
  "example_clock n =
     \<lparr>isoformat = lit ''2024-01-01T00:00:0'' @ [48 + n],
      posix_timestamp = lit ''170406720'' @ [48 + n] @ lit ''.0''\<rparr>"

text \<open>Channels for worked examples: none has gone, or the one with identity 1 has.\<close>

definition no_channel_gone :: channels where
  "no_channel_gone ws = None"

definition first_channel_gone :: channels where
  "first_channel_gone ws = (if ws = 1 then Some (RuntimeError (lit ''closed'')) else None)"

text \<open>
  Interference for worked examples: nothing happens to the registry during a broadcast,
  or the client \<open>c\<close> disconnects while the first send is awaited.
\<close>

definition quiet :: interference where
  "quiet k = []"

definition c_leaves :: interference where
  "c_leaves k = (if k = 0 then [Disconnects (lit ''c'')] else [])"

text \<open>Where Python leaves the iteration open, the examples end it.\<close>

definition ends_there :: "nat \<Rightarrow> world \<Rightarrow> exn option \<times> world" where
  "ends_there pos w = (None, w)"

text \<open>The requests of a list served one after the other, with their results in order.\<close>

fun chats :: "generator \<Rightarrow> clock \<Rightarrow> chat_request list \<Rightarrow> world \<Rightarrow> (http_exception + chat_response) list \<times> world" where
  "chats generate utcnow [] w = ([], w)"
| "chats generate utcnow (request # rest) w =
     (let (result, w1) = chat generate utcnow request w;
          (results, w2) = chats generate utcnow rest w1
      in (result # results, w2))"

section \<open>Properties\<close>

subsection \<open>Texts and tokens\<close>

lemma split_from_length:
  "length (split_from word s) = (if word = [] then 0 else 1) + token_starts (word = []) s"
  by (induction s arbitrary: word) auto

lemma str_split_tokens: "length (str_split s) = whitespace_tokens s"
  by (simp add: str_split_def whitespace_tokens_def split_from_length)

lemma greeting_tokens: "whitespace_tokens greeting_text = 26"
  by (simp add: whitespace_tokens_def greeting_text_def lit_def isspace_def)

lemma generate_response_hello:
  "generate_response ascii_lower (JStr (lit ''Hello'')) mdl ctx = Inr greeting_text"
  by (simp add: generate_response_def any_in_def ascii_lower_def lit_def sublist_code)

subsection \<open>One chat request\<close>

lemma conversation_id_or_new_history:
  "conversation_id_or_new utcnow request w = (cid, w1) \<Longrightarrow>
   conversation_history w1 = conversation_history w"
  by (auto simp: conversation_id_or_new_def now_def Let_def split: option.splits if_splits)

lemma conversation_id_or_new_None:
  "conversation_id request = None \<Longrightarrow>
   conversation_id_or_new utcnow request w =
     (lit ''conv_'' @ posix_timestamp (utcnow (ticks w)), w\<lparr>ticks := Suc (ticks w)\<rparr>)"
  by (simp add: conversation_id_or_new_def now_def)

lemma conversation_id_or_new_Some:
  "conversation_id request = Some cid \<Longrightarrow> cid \<noteq> [] \<Longrightarrow>
   conversation_id_or_new utcnow request w = (cid, w)"
  by (simp add: conversation_id_or_new_def)

text \<open>When the generator raises, the request fails and the user's entry stays.\<close>

lemma chat_try_generate_raises:
  assumes "conversation_id_or_new utcnow request w = (cid, w1)"
    and "generate (JStr (message request)) (model_argument request)
           (Some (messages (get_history cid w) @
              [\<lparr>role = lit ''user'', content = message request,
                timestamp = isoformat (utcnow (ticks w1))\<rparr>])) = Inl e"
  shows "fst (chat_try generate utcnow request w) = Inl e"
    and "map_of (conversation_history (snd (chat_try generate utcnow request w))) =
         (map_of (conversation_history w))(cid \<mapsto> messages (get_history cid w) @
              [\<lparr>role = lit ''user'', content = message request,
                timestamp = isoformat (utcnow (ticks w1))\<rparr>])"
  using assms conversation_id_or_new_history[OF assms(1)]
  by (auto simp: chat_try_def create_if_missing_def now_def history_append_def get_history_def
      Let_def AList.update_conv' split: option.splits sum.splits)

text \<open>When the generator returns, both entries are stored, whatever the validation says.\<close>

lemma chat_try_generate_returns:
  assumes "conversation_id_or_new utcnow request w = (cid, w1)"
    and "generate (JStr (message request)) (model_argument request)
           (Some (messages (get_history cid w) @
              [\<lparr>role = lit ''user'', content = message request,
                timestamp = isoformat (utcnow (ticks w1))\<rparr>])) = Inr ai_response"
  shows "fst (chat_try generate utcnow request w) =
          (case model request of
             None \<Rightarrow> Inl (ValidationError (lit ''model''))
           | Some m \<Rightarrow>
               Inr \<lparr>response = ai_response, response_conversation_id = cid, response_model = m,
                     response_timestamp = isoformat (utcnow (Suc (Suc (ticks w1)))),
                     tokens_used = Some (length (str_split (message request)) +
                                         length (str_split ai_response))\<rparr>)"
    and "map_of (conversation_history (snd (chat_try generate utcnow request w))) =
         (map_of (conversation_history w))(cid \<mapsto> messages (get_history cid w) @
              [\<lparr>role = lit ''user'', content = message request,
                timestamp = isoformat (utcnow (ticks w1))\<rparr>,
               \<lparr>role = lit ''assistant'', content = ai_response,
                timestamp = isoformat (utcnow (Suc (ticks w1)))\<rparr>])"
  using assms conversation_id_or_new_history[OF assms(1)]
  by (auto simp: chat_try_def create_if_missing_def now_def history_append_def get_history_def
      Let_def AList.update_conv' split: option.splits sum.splits)

lemma chat_fst:
  "fst (chat generate utcnow request w) =
     (case fst (chat_try generate utcnow request w) of
        Inl e \<Rightarrow> Inl (HTTPException 500 e)
      | Inr r \<Rightarrow> Inr r)"
  by (simp add: chat_def split: prod.splits sum.splits)

lemma chat_snd_history:
  "conversation_history (snd (chat generate utcnow request w)) =
   conversation_history (snd (chat_try generate utcnow request w))"
  by (simp add: chat_def logger_def split: prod.splits sum.splits)

lemma chat_returns_cases:
  assumes ok: "chat generate utcnow request w = (Inr r, w')"
    and id: "conversation_id_or_new utcnow request w = (cid, w1)"
  obtains ai_response m where
    "generate (JStr (message request)) (model_argument request)
       (Some (messages (get_history cid w) @
          [\<lparr>role = lit ''user'', content = message request,
            timestamp = isoformat (utcnow (ticks w1))\<rparr>])) = Inr ai_response"
    "model request = Some m"
    "r = \<lparr>response = ai_response, response_conversation_id = cid, response_model = m,
          response_timestamp = isoformat (utcnow (Suc (Suc (ticks w1)))),
          tokens_used = Some (length (str_split (message request)) +
                              length (str_split ai_response))\<rparr>"
    "map_of (conversation_history w') =
       (map_of (conversation_history w))(cid \<mapsto> messages (get_history cid w) @
          [\<lparr>role = lit ''user'', content = message request,
            timestamp = isoformat (utcnow (ticks w1))\<rparr>,
           \<lparr>role = lit ''assistant'', content = ai_response,
            timestamp = isoformat (utcnow (Suc (ticks w1)))\<rparr>])"
proof -
  let ?ctx = "messages (get_history cid w) @
          [\<lparr>role = lit ''user'', content = message request,
            timestamp = isoformat (utcnow (ticks w1))\<rparr>]"
  from ok have f: "fst (chat generate utcnow request w) = Inr r"
    and s: "snd (chat generate utcnow request w) = w'" by simp_all
  from f have t: "fst (chat_try generate utcnow request w) = Inr r"
    by (simp add: chat_fst split: sum.splits)
  show thesis
  proof (cases "generate (JStr (message request)) (model_argument request) (Some ?ctx)")
    case (Inl e)
    from chat_try_generate_raises(1)[where generate = generate, OF id Inl] t
    show thesis by simp
  next
    case (Inr ai)
    note g = chat_try_generate_returns[where generate = generate, OF id Inr]
    from g(1) t obtain m where m: "model request = Some m"
      by (cases "model request") auto
    from g(1) t m
    have r: "r = \<lparr>response = ai, response_conversation_id = cid, response_model = m,
          response_timestamp = isoformat (utcnow (Suc (Suc (ticks w1)))),
          tokens_used = Some (length (str_split (message request)) +
                              length (str_split ai))\<rparr>"
      by simp
    from g(2) s have "map_of (conversation_history w') =
       (map_of (conversation_history w))(cid \<mapsto> messages (get_history cid w) @
          [\<lparr>role = lit ''user'', content = message request,
            timestamp = isoformat (utcnow (ticks w1))\<rparr>,
           \<lparr>role = lit ''assistant'', content = ai,
            timestamp = isoformat (utcnow (Suc (ticks w1)))\<rparr>])"
      using chat_snd_history[of generate utcnow request w] by simp
    with Inr m r show thesis by (rule that)
  qed
qed

text \<open>The first request of the examples: a greeting without a conversation id.\<close>

lemma chat_hello:
  "fst (chat (generate_response ascii_lower) example_clock
          \<lparr>message = lit ''Hello'', conversation_id = None, model = Some (lit ''quantum-ai'')\<rparr> w) =
   Inr \<lparr>response = greeting_text,
        response_conversation_id = lit ''conv_'' @ posix_timestamp (example_clock (ticks w)),
        response_model = lit ''quantum-ai'',
        response_timestamp = isoformat (example_clock (Suc (Suc (Suc (ticks w))))),
        tokens_used = Some (length (str_split (lit ''Hello'')) + length (str_split greeting_text))\<rparr>"
proof -
  let ?request = "\<lparr>message = lit ''Hello'', conversation_id = None, model = Some (lit ''quantum-ai'')\<rparr>"
  have id: "conversation_id_or_new example_clock ?request w =
     (lit ''conv_'' @ posix_timestamp (example_clock (ticks w)), w\<lparr>ticks := Suc (ticks w)\<rparr>)"
    by (rule conversation_id_or_new_None) simp
  have "message ?request = lit ''Hello''" by simp
  with chat_try_generate_returns(1)[where generate = "generate_response ascii_lower", OF id]
  show ?thesis by (simp add: chat_fst generate_response_hello)
qed

lemma pair_of_fst_Inr: "fst p = Inr r \<Longrightarrow> p = (Inr r, snd p)"
  by (cases p) simp

text \<open>
  C5. For every conversation id, \<open>get_history\<close> returns and does not raise (it is a
  total function with no error among its results, and a handler that returns is answered
  with status 200): for an id the store does not know the body is the id with an empty list
  of messages, and for an id it knows the body is the id with the stored messages.
\<close>

theorem get_history_never_fails:
  "(map_of (conversation_history w) cid = None \<longrightarrow>
      get_history cid w = \<lparr>history_conversation_id = cid, messages = []\<rparr>)
   \<and> (\<forall>entries. map_of (conversation_history w) cid = Some entries \<longrightarrow>
      get_history cid w = \<lparr>history_conversation_id = cid, messages = entries\<rparr>)
   \<and> http_status (Inr (get_history cid w)) = 200"
  by (simp add: get_history_def http_status_def)

theorem get_history_never_fails_witness:
  "map_of (conversation_history initial_world) (lit ''nonexistent_id'') = None
   \<and> get_history (lit ''nonexistent_id'') initial_world =
       \<lparr>history_conversation_id = lit ''nonexistent_id'', messages = []\<rparr>
   \<and> map_of (conversation_history
        (initial_world\<lparr>conversation_history :=
           [(lit ''c1'', [\<lparr>role = lit ''user'', content = lit ''Hello'', timestamp = lit ''t0''\<rparr>])]\<rparr>))
        (lit ''c1'') =
       Some [\<lparr>role = lit ''user'', content = lit ''Hello'', timestamp = lit ''t0''\<rparr>]
   \<and> get_history (lit ''c1'')
        (initial_world\<lparr>conversation_history :=
           [(lit ''c1'', [\<lparr>role = lit ''user'', content = lit ''Hello'', timestamp = lit ''t0''\<rparr>])]\<rparr>) =
       \<lparr>history_conversation_id = lit ''c1'',
        messages = [\<lparr>role = lit ''user'', content = lit ''Hello'', timestamp = lit ''t0''\<rparr>]\<rparr>"
proof -
  have unknown: "map_of (conversation_history initial_world) (lit ''nonexistent_id'') = None"
    by (simp add: initial_world_def)
  have known: "map_of (conversation_history
        (initial_world\<lparr>conversation_history :=
           [(lit ''c1'', [\<lparr>role = lit ''user'', content = lit ''Hello'', timestamp = lit ''t0''\<rparr>])]\<rparr>))
        (lit ''c1'') =
       Some [\<lparr>role = lit ''user'', content = lit ''Hello'', timestamp = lit ''t0''\<rparr>]"
    by simp
  show ?thesis
    using unknown known
      get_history_never_fails[of initial_world "lit ''nonexistent_id''"]
      get_history_never_fails[of "initial_world\<lparr>conversation_history :=
           [(lit ''c1'', [\<lparr>role = lit ''user'', content = lit ''Hello'', timestamp = lit ''t0''\<rparr>])]\<rparr>"
         "lit ''c1''"]
    by blast
qed

text \<open>
  C9. For every chat request that succeeds, \<open>tokens_used\<close> of the response is the
  number of items of \<open>message.split()\<close> plus that of \<open>ai_response.split()\<close>, which is
  the number of whitespace-separated tokens of the message plus that of the response text.
\<close>

theorem chat_tokens_used:
  assumes "chat generate utcnow request w = (Inr r, w')"
  shows "tokens_used r =
           Some (length (str_split (message request)) + length (str_split (response r)))
       \<and> tokens_used r =
           Some (whitespace_tokens (message request) + whitespace_tokens (response r))"
proof -
  obtain cid w1 where id: "conversation_id_or_new utcnow request w = (cid, w1)"
    by (cases "conversation_id_or_new utcnow request w")
  show ?thesis
    by (rule chat_returns_cases[OF assms id]) (simp add: str_split_tokens)
qed

theorem chat_tokens_used_witness:
  "fst (chat (generate_response ascii_lower) example_clock
          \<lparr>message = lit ''Hello'', conversation_id = None, model = Some (lit ''quantum-ai'')\<rparr>
          initial_world) =
     Inr (projr (fst (chat (generate_response ascii_lower) example_clock
          \<lparr>message = lit ''Hello'', conversation_id = None, model = Some (lit ''quantum-ai'')\<rparr>
          initial_world)))
   \<and> tokens_used (projr (fst (chat (generate_response ascii_lower) example_clock
          \<lparr>message = lit ''Hello'', conversation_id = None, model = Some (lit ''quantum-ai'')\<rparr>
          initial_world))) = Some 27"
proof -
  let ?request = "\<lparr>message = lit ''Hello'', conversation_id = None, model = Some (lit ''quantum-ai'')\<rparr>"
  let ?result = "chat (generate_response ascii_lower) example_clock ?request initial_world"
  have f: "fst ?result = Inr (projr (fst ?result))"
    by (simp add: chat_hello)
  have r: "response (projr (fst ?result)) = greeting_text"
    by (simp add: chat_hello)
  have hello: "whitespace_tokens (lit ''Hello'') = 1"
    by (simp add: whitespace_tokens_def lit_def isspace_def)
  from chat_tokens_used[OF pair_of_fst_Inr[OF f]]
  have "tokens_used (projr (fst ?result)) =
          Some (whitespace_tokens (message ?request) + whitespace_tokens (response (projr (fst ?result))))"
    by (rule conjunct2)
  then have "tokens_used (projr (fst ?result)) = Some 27"
    by (simp add: r hello greeting_tokens)
  with f show ?thesis by (rule conjI)
qed

text \<open>
  C8. For every chat request without a conversation id that succeeds, the id of the
  response is \<open>conv_\<close> followed by the text of the timestamp read from the clock at the
  start of the request; it is not empty and starts with \<open>conv_\<close>; and two such requests
  whose timestamps differ get different ids.
\<close>

theorem chat_generated_conversation_id:
  assumes "conversation_id request = None"
    and "chat generate utcnow request w = (Inr r, w')"
    and "conversation_id request2 = None"
    and "chat generate utcnow request2 v = (Inr r2, v')"
  shows "response_conversation_id r = lit ''conv_'' @ posix_timestamp (utcnow (ticks w))
       \<and> response_conversation_id r \<noteq> []
       \<and> prefix (lit ''conv_'') (response_conversation_id r)
       \<and> (posix_timestamp (utcnow (ticks w)) \<noteq> posix_timestamp (utcnow (ticks v))
            \<longrightarrow> response_conversation_id r \<noteq> response_conversation_id r2)"
proof -
  have a: "response_conversation_id r = lit ''conv_'' @ posix_timestamp (utcnow (ticks w))"
    by (rule chat_returns_cases[OF assms(2) conversation_id_or_new_None[OF assms(1)]]) simp
  have b: "response_conversation_id r2 = lit ''conv_'' @ posix_timestamp (utcnow (ticks v))"
    by (rule chat_returns_cases[OF assms(4) conversation_id_or_new_None[OF assms(3)]]) simp
  show ?thesis using a b by (simp add: lit_def)
qed

theorem chat_generated_conversation_id_witness:
  "conversation_id \<lparr>message = lit ''Hello'', conversation_id = None, model = Some (lit ''quantum-ai'')\<rparr> = None
   \<and> response_conversation_id (projr (fst (chat (generate_response ascii_lower) example_clock
          \<lparr>message = lit ''Hello'', conversation_id = None, model = Some (lit ''quantum-ai'')\<rparr>
          initial_world))) = lit ''conv_1704067200.0''
   \<and> response_conversation_id (projr (fst (chat (generate_response ascii_lower) example_clock
          \<lparr>message = lit ''Hello'', conversation_id = None, model = Some (lit ''quantum-ai'')\<rparr>
          initial_world))) \<noteq>
     response_conversation_id (projr (fst (chat (generate_response ascii_lower) example_clock
          \<lparr>message = lit ''Hello'', conversation_id = None, model = Some (lit ''quantum-ai'')\<rparr>
          (initial_world\<lparr>ticks := 4\<rparr>))))"
proof -
  let ?request = "\<lparr>message = lit ''Hello'', conversation_id = None, model = Some (lit ''quantum-ai'')\<rparr>"
  let ?first = "chat (generate_response ascii_lower) example_clock ?request initial_world"
  let ?second = "chat (generate_response ascii_lower) example_clock ?request (initial_world\<lparr>ticks := 4\<rparr>)"
  have none: "conversation_id ?request = None" by simp
  have f: "fst ?first = Inr (projr (fst ?first))" by (simp add: chat_hello)
  have s: "fst ?second = Inr (projr (fst ?second))" by (simp add: chat_hello)
  have t0: "lit ''conv_'' @ posix_timestamp (example_clock (ticks initial_world)) = lit ''conv_1704067200.0''"
    by (simp add: example_clock_def initial_world_def lit_def)
  have apart: "posix_timestamp (example_clock (ticks initial_world)) \<noteq>
               posix_timestamp (example_clock (ticks (initial_world\<lparr>ticks := 4\<rparr>)))"
    by (simp add: example_clock_def initial_world_def lit_def)
  note c = chat_generated_conversation_id[OF none pair_of_fst_Inr[OF f] none pair_of_fst_Inr[OF s]]
  from c have "response_conversation_id (projr (fst ?first)) =
      lit ''conv_'' @ posix_timestamp (example_clock (ticks initial_world))"
    by (rule conjunct1)
  then have 1: "response_conversation_id (projr (fst ?first)) = lit ''conv_1704067200.0''"
    using t0 by (rule trans)
  from c apart have 2: "response_conversation_id (projr (fst ?first)) \<noteq>
      response_conversation_id (projr (fst ?second))"
    by blast
  from none 1 2 show ?thesis by (intro conjI)
qed

text \<open>The generator of the source reads neither the model nor the context.\<close>

lemma generate_response_str:
  "generate_response lower (JStr text) mdl ctx = generate_response lower (JStr text) JNull None"
  "\<not> isl (generate_response lower (JStr text) mdl ctx)"
  by (simp_all add: generate_response_def Let_def)

lemma conversation_id_or_new_model:
  "conversation_id_or_new utcnow (request\<lparr>model := x\<rparr>) w = conversation_id_or_new utcnow request w"
  by (simp add: conversation_id_or_new_def)

lemma chat_generate_response:
  assumes "model request = Some m"
  shows "\<exists>cid t. fst (chat (generate_response lower) utcnow request w) =
           Inr \<lparr>response = projr (generate_response lower (JStr (message request)) JNull None),
                response_conversation_id = cid, response_model = m, response_timestamp = t,
                tokens_used = Some (length (str_split (message request)) +
                  length (str_split (projr (generate_response lower (JStr (message request)) JNull None))))\<rparr>"
proof -
  obtain cid w1 where id: "conversation_id_or_new utcnow request w = (cid, w1)"
    by (cases "conversation_id_or_new utcnow request w")
  let ?ctx = "Some (messages (get_history cid w) @
              [\<lparr>role = lit ''user'', content = message request,
                timestamp = isoformat (utcnow (ticks w1))\<rparr>])"
  have "generate_response lower (JStr (message request)) (model_argument request) ?ctx =
        Inr (projr (generate_response lower (JStr (message request)) JNull None))"
    using generate_response_str[of lower "message request" "model_argument request" ?ctx]
    by (cases "generate_response lower (JStr (message request)) JNull None") simp_all
  from chat_try_generate_returns(1)[where generate = "generate_response lower", OF id this] assms
  show ?thesis by (simp add: chat_fst)
qed

text \<open>
  C10. \<open>chat\<close> with the generator of the source does not look the model up in the
  catalog: a request with any model text succeeds, the model of the response is that text,
  and with any other model text in its place the request succeeds with the same response
  text. Nothing is asked of the model text, so it need not be among \<open>supported_models\<close>.
\<close>

theorem chat_model_not_validated:
  assumes "model request = Some m"
  shows "\<exists>r w'. chat (generate_response lower) utcnow request w = (Inr r, w')
           \<and> response_model r = m
           \<and> (\<forall>m'. \<exists>r2 w2.
                 chat (generate_response lower) utcnow (request\<lparr>model := Some m'\<rparr>) w = (Inr r2, w2)
                 \<and> response_model r2 = m' \<and> response r2 = response r)"
proof -
  from chat_generate_response[OF assms, of lower utcnow w]
  obtain r where r: "fst (chat (generate_response lower) utcnow request w) = Inr r"
    and rm: "response_model r = m"
    and rr: "response r = projr (generate_response lower (JStr (message request)) JNull None)"
    by force
  have other: "\<exists>r2 w2. chat (generate_response lower) utcnow (request\<lparr>model := Some m'\<rparr>) w = (Inr r2, w2)
                 \<and> response_model r2 = m' \<and> response r2 = response r" for m'
  proof -
    have "model (request\<lparr>model := Some m'\<rparr>) = Some m'" by simp
    from chat_generate_response[OF this, of lower utcnow w]
    obtain r2 where r2: "fst (chat (generate_response lower) utcnow (request\<lparr>model := Some m'\<rparr>) w) = Inr r2"
      and "response_model r2 = m'"
      and "response r2 = projr (generate_response lower (JStr (message request)) JNull None)"
      by force
    with pair_of_fst_Inr[OF r2] rr show ?thesis by metis
  qed
  from pair_of_fst_Inr[OF r] rm other show ?thesis by blast
qed


theorem chat_model_not_validated_witness:
  "model \<lparr>message = lit ''Hello'', conversation_id = None, model = Some (lit ''quantum-ultra'')\<rparr> =
     Some (lit ''quantum-ultra'')
   \<and> map_of supported_models (lit ''quantum-ultra'') = None
   \<and> (\<exists>r w'. chat (generate_response ascii_lower) example_clock
          \<lparr>message = lit ''Hello'', conversation_id = None, model = Some (lit ''quantum-ultra'')\<rparr>
          initial_world = (Inr r, w')
        \<and> response_model r = lit ''quantum-ultra''
        \<and> (\<forall>m'. \<exists>r2 w2. chat (generate_response ascii_lower) example_clock
              (\<lparr>message = lit ''Hello'', conversation_id = None, model = Some (lit ''quantum-ultra'')\<rparr>
                 \<lparr>model := Some m'\<rparr>)
              initial_world = (Inr r2, w2)
            \<and> response_model r2 = m' \<and> response r2 = response r))"
proof -
  have m: "model \<lparr>message = lit ''Hello'', conversation_id = None, model = Some (lit ''quantum-ultra'')\<rparr> =
     Some (lit ''quantum-ultra'')"
    by simp
  have absent: "map_of supported_models (lit ''quantum-ultra'') = None"
    by (simp add: supported_models_def lit_def)
  from m absent chat_model_not_validated[OF m, of ascii_lower example_clock initial_world]
  show ?thesis by (intro conjI)
qed

text \<open>
  C4. \<open>chat\<close> does not roll back. When the generator raises \<open>e\<close> after the user's entry
  was appended, the request ends with \<open>HTTPException(500, str(e))\<close> and the history of the
  conversation is what it was followed by the user's entry alone, with no assistant entry.
  And whenever a request fails, at the generator or at a later step, the error has status
  500 and the stored history is what it was followed by the user's entry and what came
  after it.
\<close>

theorem chat_no_rollback:
  assumes id: "conversation_id_or_new utcnow request w = (cid, w1)"
    and um: "user_message = \<lparr>role = lit ''user'', content = message request,
                             timestamp = isoformat (utcnow (ticks w1))\<rparr>"
  shows "(\<forall>e. generate (JStr (message request)) (model_argument request)
                (Some (messages (get_history cid w) @ [user_message])) = Inl e \<longrightarrow>
            (\<exists>w'. chat generate utcnow request w = (Inl (HTTPException 500 e), w')
                 \<and> messages (get_history cid w') = messages (get_history cid w) @ [user_message]))
       \<and> (\<forall>err w'. chat generate utcnow request w = (Inl err, w') \<longrightarrow>
            status_code err = 500 \<and> http_status (fst (chat generate utcnow request w)) = 500
            \<and> (\<exists>later. messages (get_history cid w') =
                          messages (get_history cid w) @ user_message # later))"
proof -
  let ?ctx = "Some (messages (get_history cid w) @ [user_message])"
  let ?g = "generate (JStr (message request)) (model_argument request) ?ctx"
  have hist: "messages (get_history cid v) = es"
    if "map_of (conversation_history v) = (map_of (conversation_history w))(cid \<mapsto> es)" for v es
    using that by (simp add: get_history_def)
  have raises: "\<exists>w'. chat generate utcnow request w = (Inl (HTTPException 500 e), w')
                 \<and> messages (get_history cid w') = messages (get_history cid w) @ [user_message]"
    if g: "?g = Inl e" for e
  proof -
    note r = chat_try_generate_raises[where generate = generate, OF id g[unfolded um]]
    have "fst (chat generate utcnow request w) = Inl (HTTPException 500 e)"
      by (simp add: chat_fst r(1))
    then have "chat generate utcnow request w =
        (Inl (HTTPException 500 e), snd (chat generate utcnow request w))"
      by (cases "chat generate utcnow request w") simp
    moreover have "messages (get_history cid (snd (chat generate utcnow request w))) =
        messages (get_history cid w) @ [user_message]"
      by (rule hist) (simp add: chat_snd_history r(2) um)
    ultimately show ?thesis by blast
  qed
  have fails: "status_code err = 500 \<and> http_status (fst (chat generate utcnow request w)) = 500
            \<and> (\<exists>later. messages (get_history cid w') =
                          messages (get_history cid w) @ user_message # later)"
    if c: "chat generate utcnow request w = (Inl err, w')" for err w'
  proof (cases ?g)
    case (Inl e)
    from raises[OF Inl] c show ?thesis by (auto simp: http_status_def)
  next
    case (Inr ai)
    note r = chat_try_generate_returns[where generate = generate, OF id Inr[unfolded um]]
    from c have f: "fst (chat generate utcnow request w) = Inl err"
      and s: "snd (chat generate utcnow request w) = w'" by simp_all
    from f r(1) have "err = HTTPException 500 (ValidationError (lit ''model''))"
      by (cases "model request") (simp_all add: chat_fst)
    moreover have "messages (get_history cid w') =
        messages (get_history cid w) @ user_message #
          [\<lparr>role = lit ''assistant'', content = ai, timestamp = isoformat (utcnow (Suc (ticks w1)))\<rparr>]"
      by (rule hist) (simp add: s[symmetric] chat_snd_history r(2) um)
    ultimately show ?thesis using f by (auto simp: http_status_def)
  qed
  from raises fails show ?thesis by blast
qed

theorem chat_no_rollback_witness:
  "chat (\<lambda>msg mdl ctx. Inl (RuntimeError (lit ''model unavailable''))) example_clock
      \<lparr>message = lit ''Hello'', conversation_id = Some (lit ''c1''), model = Some (lit ''quantum-ai'')\<rparr>
      initial_world =
     (Inl (HTTPException 500 (RuntimeError (lit ''model unavailable''))),
      snd (chat (\<lambda>msg mdl ctx. Inl (RuntimeError (lit ''model unavailable''))) example_clock
      \<lparr>message = lit ''Hello'', conversation_id = Some (lit ''c1''), model = Some (lit ''quantum-ai'')\<rparr>
      initial_world))
   \<and> messages (get_history (lit ''c1'')
       (snd (chat (\<lambda>msg mdl ctx. Inl (RuntimeError (lit ''model unavailable''))) example_clock
      \<lparr>message = lit ''Hello'', conversation_id = Some (lit ''c1''), model = Some (lit ''quantum-ai'')\<rparr>
      initial_world))) =
     [\<lparr>role = lit ''user'', content = lit ''Hello'', timestamp = lit ''2024-01-01T00:00:00''\<rparr>]"
proof -
  let ?generate = "\<lambda>msg mdl ctx. Inl (RuntimeError (lit ''model unavailable'')) :: exn + str"
  let ?request = "\<lparr>message = lit ''Hello'', conversation_id = Some (lit ''c1''), model = Some (lit ''quantum-ai'')\<rparr>"
  let ?user = "\<lparr>role = lit ''user'', content = message ?request,
               timestamp = isoformat (example_clock (ticks initial_world))\<rparr>"
  have id: "conversation_id_or_new example_clock ?request initial_world = (lit ''c1'', initial_world)"
    by (rule conversation_id_or_new_Some) (simp_all add: lit_def)
  have g: "?generate (JStr (message ?request)) (model_argument ?request)
             (Some (messages (get_history (lit ''c1'') initial_world) @ [?user])) =
           Inl (RuntimeError (lit ''model unavailable''))"
    by simp
  have before: "messages (get_history (lit ''c1'') initial_world) = []"
    by (simp add: get_history_def initial_world_def)
  have user: "?user = \<lparr>role = lit ''user'', content = lit ''Hello'', timestamp = lit ''2024-01-01T00:00:00''\<rparr>"
    by (simp add: example_clock_def initial_world_def lit_def)
  from chat_no_rollback[where generate = ?generate, OF id refl] g
  obtain w' where c: "chat ?generate example_clock ?request initial_world =
        (Inl (HTTPException 500 (RuntimeError (lit ''model unavailable''))), w')"
    and h: "messages (get_history (lit ''c1'') w') = messages (get_history (lit ''c1'') initial_world) @ [?user]"
    by blast
  from c have w': "w' = snd (chat ?generate example_clock ?request initial_world)" by simp
  from c h show ?thesis unfolding w' before user by simp
qed

subsection \<open>Several requests on one conversation\<close>

lemma chats_single:
  "chats generate utcnow [request] w =
     ([fst (chat generate utcnow request w)], snd (chat generate utcnow request w))"
  by (simp add: split_beta)

lemma chat_same_conversation:
  assumes "cid \<noteq> []" and "conversation_id request = Some cid"
    and "chat generate utcnow request w = (Inr r, w1)"
  shows "map (\<lambda>entry. (role entry, content entry)) (messages (get_history cid w1)) =
         map (\<lambda>entry. (role entry, content entry)) (messages (get_history cid w)) @
           [(lit ''user'', message request), (lit ''assistant'', response r)]"
proof (rule chat_returns_cases[OF assms(3) conversation_id_or_new_Some[OF assms(2) assms(1)]])
  fix ai_response m
  assume "r = \<lparr>response = ai_response, response_conversation_id = cid, response_model = m,
          response_timestamp = isoformat (utcnow (Suc (Suc (ticks w)))),
          tokens_used = Some (length (str_split (message request)) +
                              length (str_split ai_response))\<rparr>"
    and "map_of (conversation_history w1) =
       (map_of (conversation_history w))(cid \<mapsto> messages (get_history cid w) @
          [\<lparr>role = lit ''user'', content = message request,
            timestamp = isoformat (utcnow (ticks w))\<rparr>,
           \<lparr>role = lit ''assistant'', content = ai_response,
            timestamp = isoformat (utcnow (Suc (ticks w)))\<rparr>])"
  then show ?thesis by (simp add: get_history_def)
qed

lemma chats_same_conversation:
  assumes "cid \<noteq> []"
    and "\<forall>request \<in> set requests. conversation_id request = Some cid"
    and "chats generate utcnow requests w = (results, w')"
    and "\<forall>result \<in> set results. \<not> isl result"
  shows "length results = length requests
       \<and> map (\<lambda>entry. (role entry, content entry)) (messages (get_history cid w')) =
         map (\<lambda>entry. (role entry, content entry)) (messages (get_history cid w)) @
         concat (map (\<lambda>(request, result).
                        [(lit ''user'', message request), (lit ''assistant'', response (projr result))])
                     (zip requests results))"
  using assms(2-4)
proof (induction requests arbitrary: w results w')
  case Nil
  then show ?case by simp
next
  case (Cons request requests)
  obtain result w1 where c: "chat generate utcnow request w = (result, w1)"
    by (cases "chat generate utcnow request w")
  obtain results1 w2 where cs: "chats generate utcnow requests w1 = (results1, w2)"
    by (cases "chats generate utcnow requests w1")
  from Cons.prems(2) c cs have res: "results = result # results1" and w': "w' = w2"
    by simp_all
  from Cons.prems(3) res obtain r where r: "result = Inr r"
    by (cases result) simp_all
  from Cons.prems(1) have id: "conversation_id request = Some cid" by simp
  note step = chat_same_conversation[OF assms(1) id c[unfolded r]]
  from Cons.prems(1) Cons.prems(3) res
  have "\<forall>request \<in> set requests. conversation_id request = Some cid"
    and "\<forall>result \<in> set results1. \<not> isl result"
    by simp_all
  from Cons.IH[OF this(1) cs this(2)] step res r w'
  show ?case by simp
qed

text \<open>
  The two parts of \<open>chat\<close> put together are its \<open>try\<close>, and the event loop that wakes
  every handler before the next request arrives serves the requests one after the other.
\<close>

lemma chat_try_parts:
  "chat_try generate utcnow request w =
     (case chat_begin utcnow request w of
        (Inl e, w1) \<Rightarrow> (Inl e, w1)
      | (Inr cid, w1) \<Rightarrow> chat_resume generate utcnow request cid w1)"
proof -
  obtain cid w1 where id: "conversation_id_or_new utcnow request w = (cid, w1)"
    by (cases "conversation_id_or_new utcnow request w")
  obtain t_user w3 where n: "now utcnow (create_if_missing cid w1) = (t_user, w3)"
    by (cases "now utcnow (create_if_missing cid w1)")
  let ?user = "\<lparr>role = lit ''user'', content = message request, timestamp = isoformat t_user\<rparr>"
  show ?thesis
  proof (cases "history_append cid ?user w3")
    case (Inl e)
    with id n show ?thesis by (simp add: chat_try_def chat_begin_def)
  next
    case (Inr w4)
    show ?thesis
    proof (cases "map_of (conversation_history w4) cid")
      case None
      with id n Inr show ?thesis by (simp add: chat_try_def chat_begin_def)
    next
      case (Some entries)
      with id n Inr show ?thesis by (simp add: chat_try_def chat_begin_def chat_resume_def)
    qed
  qed
qed

lemma chat_parts:
  "chat generate utcnow request w = chat_except (chat_try generate utcnow request w)"
  by (simp add: chat_def chat_except_def)

lemma serve_one_request:
  "serve generate utcnow (Arrives request # Wakes 0 # events) [] w =
     (let (result, w1) = chat generate utcnow request w;
          (results, w2) = serve generate utcnow events [] w1
      in (result # results, w2))"
  by (simp add: chat_parts chat_try_parts split: prod.splits sum.splits)

lemma serve_one_after_the_other:
  "serve generate utcnow (concat (map (\<lambda>request. [Arrives request, Wakes 0]) requests)) [] w =
   chats generate utcnow requests w"
proof (induction requests arbitrary: w)
  case Nil
  show ?case by simp
next
  case (Cons request requests)
  show ?case
    by (simp add: serve_one_request Cons.IH del: serve.simps)
qed



text \<open>
  C1, as the code has it. Take a conversation id (a text that is not empty: the code takes
  an empty one for no id) for which nothing is stored, and chat requests that all carry
  it, each served to its end before the next arrives, and all successful. Then
  \<open>get_history\<close> for the id returns two entries for each request, in the order of the
  requests: a \<open>user\<close> entry with the message of the request, then an \<open>assistant\<close> entry
  with the text of its response.
\<close>

theorem chats_history_alternates:
  assumes "cid \<noteq> []"
    and "\<forall>request \<in> set requests. conversation_id request = Some cid"
    and "map_of (conversation_history w) cid = None"
    and "chats generate utcnow requests w = (results, w')"
    and "\<forall>result \<in> set results. \<not> isl result"
  shows "length (messages (get_history cid w')) = 2 * length requests
       \<and> map (\<lambda>entry. (role entry, content entry)) (messages (get_history cid w')) =
         concat (map (\<lambda>(request, result).
                        [(lit ''user'', message request), (lit ''assistant'', response (projr result))])
                     (zip requests results))
       \<and> serve generate utcnow (concat (map (\<lambda>request. [Arrives request, Wakes 0]) requests)) [] w =
           (results, w')"
proof -
  from assms(3) have empty: "messages (get_history cid w) = []"
    by (simp add: get_history_def)
  note all = chats_same_conversation[OF assms(1,2,4,5)]
  from all empty
  have m: "map (\<lambda>entry. (role entry, content entry)) (messages (get_history cid w')) =
         concat (map (\<lambda>(request, result).
                        [(lit ''user'', message request), (lit ''assistant'', response (projr result))])
                     (zip requests results))"
    by simp
  have two: "length (concat (map (\<lambda>(request, result).
                        [(lit ''user'', message request), (lit ''assistant'', response (projr result))]) ps)) =
             2 * length ps" for ps :: "(chat_request \<times> (http_exception + chat_response)) list"
    by (induction ps) auto
  have "length (messages (get_history cid w')) =
        length (map (\<lambda>entry. (role entry, content entry)) (messages (get_history cid w')))"
    by simp
  also have "\<dots> = 2 * length (zip requests results)"
    unfolding m by (rule two)
  also have "\<dots> = 2 * length requests"
    using all by simp
  finally have l: "length (messages (get_history cid w')) = 2 * length requests" .
  from assms(4) have "serve generate utcnow
      (concat (map (\<lambda>request. [Arrives request, Wakes 0]) requests)) [] w = (results, w')"
    by (simp only: serve_one_after_the_other)
  with l m show ?thesis by (intro conjI)
qed


lemma generate_response_tell_me_more:
  "generate_response ascii_lower (JStr (lit ''Tell me more'')) mdl ctx =
     Inr (default_text (lit ''Tell me more''))"
  by (simp add: generate_response_def any_in_def ascii_lower_def lit_def sublist_code)

lemma chat_response_text:
  assumes "model request = Some m"
    and "generate_response lower (JStr (message request)) JNull None = Inr text"
  shows "\<not> isl (fst (chat (generate_response lower) utcnow request w))"
    and "response (projr (fst (chat (generate_response lower) utcnow request w))) = text"
  using chat_generate_response[OF assms(1), of lower utcnow w] assms(2) by auto

lemma chats_generate_response_succeed:
  assumes "\<forall>request \<in> set requests. model request \<noteq> None"
  shows "\<forall>result \<in> set (fst (chats (generate_response lower) utcnow requests w)). \<not> isl result"
  using assms
proof (induction requests arbitrary: w)
  case Nil
  show ?case by simp
next
  case (Cons request requests)
  from Cons.prems obtain m where m: "model request = Some m" by auto
  from chat_generate_response[OF m, of lower utcnow w]
  have "\<not> isl (fst (chat (generate_response lower) utcnow request w))" by auto
  moreover from Cons.prems have "\<forall>request \<in> set requests. model request \<noteq> None" by simp
  note Cons.IH[OF this, of "snd (chat (generate_response lower) utcnow request w)"]
  ultimately show ?case by (simp add: split_beta)
qed

theorem chats_history_alternates_witness:
  "lit ''c1'' \<noteq> []
   \<and> map_of (conversation_history initial_world) (lit ''c1'') = None
   \<and> length (messages (get_history (lit ''c1'')
        (snd (chats (generate_response ascii_lower) example_clock
           [\<lparr>message = lit ''Hello'', conversation_id = Some (lit ''c1''), model = Some (lit ''quantum-ai'')\<rparr>,
            \<lparr>message = lit ''Tell me more'', conversation_id = Some (lit ''c1''), model = Some (lit ''quantum-ai'')\<rparr>]
           initial_world)))) = 4
   \<and> map (\<lambda>entry. (role entry, content entry)) (messages (get_history (lit ''c1'')
        (snd (chats (generate_response ascii_lower) example_clock
           [\<lparr>message = lit ''Hello'', conversation_id = Some (lit ''c1''), model = Some (lit ''quantum-ai'')\<rparr>,
            \<lparr>message = lit ''Tell me more'', conversation_id = Some (lit ''c1''), model = Some (lit ''quantum-ai'')\<rparr>]
           initial_world)))) =
      [(lit ''user'', lit ''Hello''), (lit ''assistant'', greeting_text),
       (lit ''user'', lit ''Tell me more''), (lit ''assistant'', default_text (lit ''Tell me more''))]"
proof -
  let ?r1 = "\<lparr>message = lit ''Hello'', conversation_id = Some (lit ''c1''), model = Some (lit ''quantum-ai'')\<rparr>"
  let ?r2 = "\<lparr>message = lit ''Tell me more'', conversation_id = Some (lit ''c1''), model = Some (lit ''quantum-ai'')\<rparr>"
  let ?g = "generate_response ascii_lower"
  let ?out = "chats ?g example_clock [?r1, ?r2] initial_world"
  have h1: "lit ''c1'' \<noteq> []" by (simp add: lit_def)
  have h2: "\<forall>request \<in> set [?r1, ?r2]. conversation_id request = Some (lit ''c1'')" by simp
  have h3: "map_of (conversation_history initial_world) (lit ''c1'') = None"
    by (simp add: initial_world_def)
  have h4: "?out = (fst ?out, snd ?out)" by simp
  have h5: "\<forall>result \<in> set (fst ?out). \<not> isl result"
    by (rule chats_generate_response_succeed) simp
  note t = chats_history_alternates[OF h1 h2 h3 h4 h5]
  have m1: "message ?r1 = lit ''Hello''" and m2: "message ?r2 = lit ''Tell me more''"
    and md1: "model ?r1 = Some (lit ''quantum-ai'')" and md2: "model ?r2 = Some (lit ''quantum-ai'')"
    by simp_all
  have g1: "generate_response ascii_lower (JStr (message ?r1)) JNull None = Inr greeting_text"
    unfolding m1 by (rule generate_response_hello)
  have g2: "generate_response ascii_lower (JStr (message ?r2)) JNull None =
      Inr (default_text (lit ''Tell me more''))"
    unfolding m2 by (rule generate_response_tell_me_more)
  have z: "concat (map (\<lambda>(request, result).
                        [(lit ''user'', message request), (lit ''assistant'', response (projr result))])
                     (zip [?r1, ?r2] (fst ?out))) =
      [(lit ''user'', lit ''Hello''), (lit ''assistant'', greeting_text),
       (lit ''user'', lit ''Tell me more''), (lit ''assistant'', default_text (lit ''Tell me more''))]"
    using chat_response_text(2)[OF md1 g1] chat_response_text(2)[OF md2 g2]
    by (simp add: split_beta)
  from t have "length (messages (get_history (lit ''c1'') (snd ?out))) = 2 * length [?r1, ?r2]"
    by (rule conjunct1)
  then have l: "length (messages (get_history (lit ''c1'') (snd ?out))) = 4" by simp
  from t have "map (\<lambda>entry. (role entry, content entry)) (messages (get_history (lit ''c1'') (snd ?out))) =
      concat (map (\<lambda>(request, result).
                        [(lit ''user'', message request), (lit ''assistant'', response (projr result))])
                     (zip [?r1, ?r2] (fst ?out)))"
    by (rule conjunct2[THEN conjunct1])
  then have c: "map (\<lambda>entry. (role entry, content entry)) (messages (get_history (lit ''c1'') (snd ?out))) =
      [(lit ''user'', lit ''Hello''), (lit ''assistant'', greeting_text),
       (lit ''user'', lit ''Tell me more''), (lit ''assistant'', default_text (lit ''Tell me more''))]"
    using z by (rule trans)
  from h1 h3 l c show ?thesis by (intro conjI)
qed

text \<open>
  C1 as stated fails in two ways, both with requests that all carry the id \<open>c1\<close>. When a
  second request arrives while the first waits at its \<open>await\<close>, both succeed and the
  history reads user, user, assistant, assistant. And a request with \<open>model\<close> null is
  answered with 500 after both its entries are stored, so that the one successful request
  which follows finds four entries, not two.
\<close>

theorem chats_history_counterexample:
  "conversation_id \<lparr>message = lit ''Hello'', conversation_id = Some (lit ''c1''),
                     model = Some (lit ''quantum-ai'')\<rparr> = Some (lit ''c1'')
   \<and> conversation_id \<lparr>message = lit ''Tell me more'', conversation_id = Some (lit ''c1''),
                     model = Some (lit ''quantum-ai'')\<rparr> = Some (lit ''c1'')
   \<and> map isl (fst (serve (generate_response ascii_lower) example_clock
        [Arrives \<lparr>message = lit ''Hello'', conversation_id = Some (lit ''c1''),
                  model = Some (lit ''quantum-ai'')\<rparr>,
         Arrives \<lparr>message = lit ''Tell me more'', conversation_id = Some (lit ''c1''),
                  model = Some (lit ''quantum-ai'')\<rparr>,
         Wakes 0, Wakes 0] [] initial_world)) = [False, False]
   \<and> map role (messages (get_history (lit ''c1'')
        (snd (serve (generate_response ascii_lower) example_clock
          [Arrives \<lparr>message = lit ''Hello'', conversation_id = Some (lit ''c1''),
                    model = Some (lit ''quantum-ai'')\<rparr>,
           Arrives \<lparr>message = lit ''Tell me more'', conversation_id = Some (lit ''c1''),
                    model = Some (lit ''quantum-ai'')\<rparr>,
           Wakes 0, Wakes 0] [] initial_world)))) =
      [lit ''user'', lit ''user'', lit ''assistant'', lit ''assistant'']
   \<and> map content (messages (get_history (lit ''c1'')
        (snd (serve (generate_response ascii_lower) example_clock
          [Arrives \<lparr>message = lit ''Hello'', conversation_id = Some (lit ''c1''),
                    model = Some (lit ''quantum-ai'')\<rparr>,
           Arrives \<lparr>message = lit ''Tell me more'', conversation_id = Some (lit ''c1''),
                    model = Some (lit ''quantum-ai'')\<rparr>,
           Wakes 0, Wakes 0] [] initial_world)))) =
      [lit ''Hello'', lit ''Tell me more'', greeting_text, default_text (lit ''Tell me more'')]
   \<and> conversation_id \<lparr>message = lit ''Hello'', conversation_id = Some (lit ''c1''), model = None\<rparr> =
       Some (lit ''c1'')
   \<and> map isl (fst (chats (generate_response ascii_lower) example_clock
        [\<lparr>message = lit ''Hello'', conversation_id = Some (lit ''c1''), model = None\<rparr>,
         \<lparr>message = lit ''Tell me more'', conversation_id = Some (lit ''c1''),
          model = Some (lit ''quantum-ai'')\<rparr>] initial_world)) = [True, False]
   \<and> length (messages (get_history (lit ''c1'')
        (snd (chats (generate_response ascii_lower) example_clock
          [\<lparr>message = lit ''Hello'', conversation_id = Some (lit ''c1''), model = None\<rparr>,
           \<lparr>message = lit ''Tell me more'', conversation_id = Some (lit ''c1''),
            model = Some (lit ''quantum-ai'')\<rparr>] initial_world)))) = 4"
proof -
  have c1: "lit ''c1'' \<noteq> []" by (simp add: lit_def)
  show ?thesis
    by (simp add: chat_def chat_try_def chat_begin_def chat_resume_def chat_except_def
        conversation_id_or_new_def create_if_missing_def now_def history_append_def
        model_argument_def logger_def get_history_def initial_world_def c1
        generate_response_hello generate_response_tell_me_more)
qed

subsection \<open>The WebSocket endpoint and the history\<close>

lemma send_text_history:
  "conversation_history (snd (send_text raises ws frame w)) = conversation_history w"
  by (simp add: send_text_def split: option.splits)

lemma send_message_history:
  "conversation_history (snd (send_message raises frame client_id w)) = conversation_history w"
  by (simp add: send_message_def send_text_history split: option.splits)

lemma connect_history: "conversation_history (connect ws client_id w) = conversation_history w"
  by (simp add: connect_def logger_def Let_def)

lemma disconnect_history: "conversation_history (disconnect client_id w) = conversation_history w"
  by (simp add: disconnect_def logger_def Let_def)

lemma handle_frame_history:
  "conversation_history (snd (handle_frame generate utcnow raises client_id data w)) =
   conversation_history w"
  by (simp add: handle_frame_def now_def Let_def send_message_history
      split: inbound.splits json.splits sum.splits)

lemma receive_loop_history:
  "conversation_history (snd (receive_loop generate utcnow raises client_id frames w)) =
   conversation_history w"
proof (induction frames arbitrary: w)
  case Nil
  show ?case by simp
next
  case (Cons data rest)
  obtain raised w1 where h: "handle_frame generate utcnow raises client_id data w = (raised, w1)"
    by (cases "handle_frame generate utcnow raises client_id data w")
  from handle_frame_history[of generate utcnow raises client_id data w] h
  have "conversation_history w1 = conversation_history w" by simp
  with Cons.IH[of w1] h show ?case by (cases raised) simp_all
qed

lemma websocket_try_history:
  "conversation_history (snd (websocket_try generate utcnow raises client_id frames w)) =
   conversation_history w"
proof -
  let ?w1 = "w\<lparr>ticks := Suc (ticks w)\<rparr>"
  let ?ack = "JsonDumps (JObj [(lit ''type'', JStr (lit ''connection'')),
                                  (lit ''message'', JStr (lit ''Connected to Quantum Travel AI'')),
                                  (lit ''client_id'', JStr client_id),
                                  (lit ''timestamp'', JStr (isoformat (utcnow (ticks w))))])"
  obtain raised w2 where s: "send_message raises ?ack client_id ?w1 = (raised, w2)"
    by (cases "send_message raises ?ack client_id ?w1")
  from send_message_history[of raises ?ack client_id ?w1] s
  have w2: "conversation_history w2 = conversation_history w" by simp
  show ?thesis
  proof (cases raised)
    case None
    with s w2 receive_loop_history[of generate utcnow raises client_id frames w2]
    show ?thesis by (simp add: websocket_try_def now_def)
  next
    case (Some e)
    with s w2 show ?thesis by (simp add: websocket_try_def now_def)
  qed
qed

lemma websocket_endpoint_history:
  "conversation_history (snd (websocket_endpoint generate utcnow raises ws client_id frames w)) =
   conversation_history w"
proof -
  obtain raised w1 where
    t: "websocket_try generate utcnow raises client_id frames (connect ws client_id w) = (raised, w1)"
    by (cases "websocket_try generate utcnow raises client_id frames (connect ws client_id w)")
  from websocket_try_history[of generate utcnow raises client_id frames "connect ws client_id w"] t
  have "conversation_history w1 = conversation_history w" by (simp add: connect_history)
  with t show ?thesis
    by (simp add: websocket_endpoint_def disconnect_history logger_def
        split: option.splits exn.splits)
qed

text \<open>
  C7. The WebSocket endpoint does not write history: whatever the client sends, and
  however the session ends, \<open>conversation_history\<close> after \<open>websocket_endpoint\<close> is what
  it was before.
\<close>

theorem websocket_keeps_history:
  "conversation_history (snd (websocket_endpoint generate utcnow raises ws client_id frames w)) =
   conversation_history w"
  by (rule websocket_endpoint_history)

subsection \<open>A frame that is not JSON\<close>

lemma receive_loop_append:
  "receive_loop generate utcnow raises client_id (frames @ later) w =
     (case receive_loop generate utcnow raises client_id frames w of
        (Some e, w1) \<Rightarrow> (Some e, w1)
      | (None, w1) \<Rightarrow> receive_loop generate utcnow raises client_id later w1)"
proof (induction frames arbitrary: w)
  case Nil
  show ?case by simp
next
  case (Cons data frames)
  obtain raised w1 where h: "handle_frame generate utcnow raises client_id data w = (raised, w1)"
    by (cases "handle_frame generate utcnow raises client_id data w")
  show ?case
  proof (cases raised)
    case None
    with h Cons.IH[of w1] show ?thesis by simp
  next
    case (Some e)
    with h show ?thesis by simp
  qed
qed

lemma receive_loop_malformed:
  "receive_loop generate utcnow raises client_id (Malformed text # rest) w =
     (Some (JSONDecodeError text), w)"
  by (simp add: handle_frame_def)

lemma websocket_try_malformed:
  assumes "websocket_try generate utcnow raises client_id frames w = (None, w1)"
  shows "websocket_try generate utcnow raises client_id (frames @ Malformed text # rest) w =
           (Some (JSONDecodeError text), w1)"
proof -
  let ?w1 = "w\<lparr>ticks := Suc (ticks w)\<rparr>"
  let ?ack = "JsonDumps (JObj [(lit ''type'', JStr (lit ''connection'')),
                                  (lit ''message'', JStr (lit ''Connected to Quantum Travel AI'')),
                                  (lit ''client_id'', JStr client_id),
                                  (lit ''timestamp'', JStr (isoformat (utcnow (ticks w))))])"
  obtain raised w2 where s: "send_message raises ?ack client_id ?w1 = (raised, w2)"
    by (cases "send_message raises ?ack client_id ?w1")
  show ?thesis
  proof (cases raised)
    case None
    with s assms have "receive_loop generate utcnow raises client_id frames w2 = (None, w1)"
      by (simp add: websocket_try_def now_def)
    with s None show ?thesis
      by (simp add: websocket_try_def now_def receive_loop_append handle_frame_def)
  next
    case (Some e)
    with s assms show ?thesis by (simp add: websocket_try_def now_def)
  qed
qed

lemma disconnect_removes: "map_of (connections (disconnect client_id w)) client_id = None"
  by (simp add: disconnect_def logger_def Let_def AList.delete_conv')

lemma disconnect_sent: "sent (disconnect client_id w) = sent w"
  by (simp add: disconnect_def logger_def Let_def)

text \<open>
  C2, as the code has it. In a session that is open and waiting for the next frame, a
  frame that \<open>json.loads\<close> refuses ends the session: the \<open>JSONDecodeError\<close> leaves the
  loop, the \<open>except Exception\<close> logs it and calls \<open>manager.disconnect\<close>, and the function
  returns. The client is no longer registered, nothing is sent for that frame, and the
  frames after it are never read.
\<close>

theorem malformed_frame_closes_session:
  assumes "websocket_endpoint generate utcnow raises ws client_id frames w = (Open, w1)"
  shows "websocket_endpoint generate utcnow raises ws client_id (frames @ Malformed text # rest) w =
           (Closed, disconnect client_id (logger (ErrorWebSocket (JSONDecodeError text)) w1))
       \<and> map_of (connections
            (snd (websocket_endpoint generate utcnow raises ws client_id
                    (frames @ Malformed text # rest) w))) client_id = None
       \<and> sent (snd (websocket_endpoint generate utcnow raises ws client_id
                    (frames @ Malformed text # rest) w)) = sent w1"
proof -
  obtain raised w' where
    t: "websocket_try generate utcnow raises client_id frames (connect ws client_id w) = (raised, w')"
    by (cases "websocket_try generate utcnow raises client_id frames (connect ws client_id w)")
  from assms t have "raised = None \<and> w' = w1"
    by (simp add: websocket_endpoint_def split: option.splits exn.splits)
  with t have "websocket_try generate utcnow raises client_id frames (connect ws client_id w) = (None, w1)"
    by simp
  from websocket_try_malformed[OF this]
  have "websocket_endpoint generate utcnow raises ws client_id (frames @ Malformed text # rest) w =
           (Closed, disconnect client_id (logger (ErrorWebSocket (JSONDecodeError text)) w1))"
    by (simp add: websocket_endpoint_def)
  then show ?thesis
    by (simp add: disconnect_removes disconnect_sent logger_def)
qed


lemma websocket_endpoint_no_frames:
  "websocket_endpoint (generate_response ascii_lower) example_clock no_channel_gone 1 (lit ''client1'') []
     initial_world =
   (Open,
    \<lparr>conversation_history = [], connections = [(lit ''client1'', 1)],
     sent = [(1, JsonDumps (JObj [(lit ''type'', JStr (lit ''connection'')),
                                 (lit ''message'', JStr (lit ''Connected to Quantum Travel AI'')),
                                 (lit ''client_id'', JStr (lit ''client1'')),
                                 (lit ''timestamp'', JStr (lit ''2024-01-01T00:00:00''))]))],
     logged = [InfoConnected (lit ''client1'') 1], ticks = 1\<rparr>)"
  by (simp add: websocket_endpoint_def websocket_try_def connect_def logger_def now_def
      send_message_def send_text_def no_channel_gone_def initial_world_def example_clock_def lit_def)

theorem malformed_frame_closes_session_witness:
  "fst (websocket_endpoint (generate_response ascii_lower) example_clock no_channel_gone 1 (lit ''client1'') []
     initial_world) = Open
   \<and> fst (websocket_endpoint (generate_response ascii_lower) example_clock no_channel_gone 1 (lit ''client1'')
       ([] @ Malformed (lit ''{'') # [Parsed (JObj [(lit ''message'', JStr (lit ''hi''))])])
       initial_world) = Closed
   \<and> map_of (connections (snd (websocket_endpoint (generate_response ascii_lower) example_clock
       no_channel_gone 1 (lit ''client1'')
       ([] @ Malformed (lit ''{'') # [Parsed (JObj [(lit ''message'', JStr (lit ''hi''))])])
       initial_world))) (lit ''client1'') = None
   \<and> length (sent (snd (websocket_endpoint (generate_response ascii_lower) example_clock
       no_channel_gone 1 (lit ''client1'')
       ([] @ Malformed (lit ''{'') # [Parsed (JObj [(lit ''message'', JStr (lit ''hi''))])])
       initial_world))) = 1"
proof -
  note o = websocket_endpoint_no_frames
  note m = malformed_frame_closes_session[OF o, of "lit ''{''"
      "[Parsed (JObj [(lit ''message'', JStr (lit ''hi''))])]"]
  from o have 1: "fst (websocket_endpoint (generate_response ascii_lower) example_clock no_channel_gone 1
      (lit ''client1'') [] initial_world) = Open"
    by simp
  from m have 2: "fst (websocket_endpoint (generate_response ascii_lower) example_clock no_channel_gone 1
       (lit ''client1'')
       ([] @ Malformed (lit ''{'') # [Parsed (JObj [(lit ''message'', JStr (lit ''hi''))])])
       initial_world) = Closed"
    by simp
  from m have 3: "map_of (connections (snd (websocket_endpoint (generate_response ascii_lower) example_clock
       no_channel_gone 1 (lit ''client1'')
       ([] @ Malformed (lit ''{'') # [Parsed (JObj [(lit ''message'', JStr (lit ''hi''))])])
       initial_world))) (lit ''client1'') = None"
    by blast
  from m have "sent (snd (websocket_endpoint (generate_response ascii_lower) example_clock
       no_channel_gone 1 (lit ''client1'')
       ([] @ Malformed (lit ''{'') # [Parsed (JObj [(lit ''message'', JStr (lit ''hi''))])])
       initial_world)) =
     sent \<lparr>conversation_history = [], connections = [(lit ''client1'', 1)],
     sent = [(1, JsonDumps (JObj [(lit ''type'', JStr (lit ''connection'')),
                                 (lit ''message'', JStr (lit ''Connected to Quantum Travel AI'')),
                                 (lit ''client_id'', JStr (lit ''client1'')),
                                 (lit ''timestamp'', JStr (lit ''2024-01-01T00:00:00''))]))],
     logged = [InfoConnected (lit ''client1'') 1], ticks = 1\<rparr>"
    by (rule conjunct2[THEN conjunct2])
  then have 4: "length (sent (snd (websocket_endpoint (generate_response ascii_lower) example_clock
       no_channel_gone 1 (lit ''client1'')
       ([] @ Malformed (lit ''{'') # [Parsed (JObj [(lit ''message'', JStr (lit ''hi''))])])
       initial_world))) = 1"
    by simp
  from 1 2 3 4 show ?thesis by (intro conjI)
qed

text \<open>
  C2 as stated fails: after the one frame \<open>{\<close> the session is closed and \<open>client1\<close> is
  not registered; a well-formed frame that follows gets no reply, the welcome message is
  all that was sent.
\<close>

theorem malformed_frame_counterexample:
  "fst (websocket_endpoint (generate_response ascii_lower) example_clock no_channel_gone 1 (lit ''client1'')
       [Malformed (lit ''{'')] initial_world) = Closed
   \<and> map_of (connections (snd (websocket_endpoint (generate_response ascii_lower) example_clock
       no_channel_gone 1 (lit ''client1'') [Malformed (lit ''{'')] initial_world))) (lit ''client1'') = None
   \<and> sent (snd (websocket_endpoint (generate_response ascii_lower) example_clock
       no_channel_gone 1 (lit ''client1'')
       [Malformed (lit ''{''), Parsed (JObj [(lit ''message'', JStr (lit ''hi''))])] initial_world)) =
     [(1, JsonDumps (JObj [(lit ''type'', JStr (lit ''connection'')),
                           (lit ''message'', JStr (lit ''Connected to Quantum Travel AI'')),
                           (lit ''client_id'', JStr (lit ''client1'')),
                           (lit ''timestamp'', JStr (lit ''2024-01-01T00:00:00''))]))]"
  by (simp add: websocket_endpoint_def websocket_try_def connect_def disconnect_def logger_def now_def
      send_message_def send_text_def handle_frame_def no_channel_gone_def initial_world_def
      example_clock_def lit_def)

subsection \<open>Broadcast\<close>

lemma send_text_delivers:
  "raises c = None \<Longrightarrow> send_text raises c frame w = (None, w\<lparr>sent := sent w @ [(c, frame)]\<rparr>)"
  by (simp add: send_text_def)

lemma send_text_raises:
  "raises c = Some e \<Longrightarrow> send_text raises c frame w = (Some e, w)"
  by (simp add: send_text_def)

lemma connect_sent: "connect ws client_id (w\<lparr>sent := s\<rparr>) = (connect ws client_id w)\<lparr>sent := s\<rparr>"
  by (simp add: connect_def logger_def Let_def)

lemma disconnect_sent_update: "disconnect client_id (w\<lparr>sent := s\<rparr>) = (disconnect client_id w)\<lparr>sent := s\<rparr>"
  by (simp add: disconnect_def logger_def Let_def)

lemma registry_events_sent:
  "registry_events events (w\<lparr>sent := s\<rparr>) = (registry_events events w)\<lparr>sent := s\<rparr>"
proof (induction events arbitrary: w)
  case Nil
  show ?case by simp
next
  case (Cons event events)
  show ?case
    by (cases event) (simp_all only: registry_events.simps connect_sent disconnect_sent_update Cons.IH)
qed

lemma broadcast_loop_quiet:
  assumes "\<forall>k<n. during k = []" and "length (connections w) = n" and "pos \<le> n"
  shows "broadcast_loop raises during left_open n pos frame w =
     (case find (\<lambda>c. raises c \<noteq> None) (drop pos (map snd (connections w))) of
        None \<Rightarrow> None
      | Some c \<Rightarrow> raises c,
      w\<lparr>sent := sent w @
           map (\<lambda>c. (c, frame))
             (takeWhile (\<lambda>c. raises c = None) (drop pos (map snd (connections w))))\<rparr>)"
  using assms(2,3)
proof (induction "n - pos" arbitrary: pos w)
  case 0
  then show ?case by (simp add: broadcast_loop.simps)
next
  case (Suc d)
  then have pos: "pos < n" by simp
  let ?c = "snd (connections w ! pos)"
  from pos Suc.prems(1)
  have dr: "drop pos (map snd (connections w)) = ?c # drop (Suc pos) (map snd (connections w))"
    by (simp add: Cons_nth_drop_Suc[symmetric])
  from pos assms(1) have q: "during pos = []" by simp
  show ?case
  proof (cases "raises ?c")
    case (Some e)
    with pos Suc.prems(1) show ?thesis
      by (subst broadcast_loop.simps) (simp add: dr send_text_raises)
  next
    case None
    let ?w1 = "w\<lparr>sent := sent w @ [(?c, frame)]\<rparr>"
    from Suc.hyps(2) pos have "d = n - Suc pos" by simp
    moreover from Suc.prems(1) have "length (connections ?w1) = n" by simp
    moreover from pos have "Suc pos \<le> n" by simp
    ultimately have ih: "broadcast_loop raises during left_open n (Suc pos) frame ?w1 =
     (case find (\<lambda>c. raises c \<noteq> None) (drop (Suc pos) (map snd (connections ?w1))) of
        None \<Rightarrow> None
      | Some c \<Rightarrow> raises c,
      ?w1\<lparr>sent := sent ?w1 @
           map (\<lambda>c. (c, frame))
             (takeWhile (\<lambda>c. raises c = None) (drop (Suc pos) (map snd (connections ?w1))))\<rparr>)"
      by (rule Suc.hyps(1))
    from None pos Suc.prems(1) show ?thesis
      by (subst broadcast_loop.simps) (simp add: dr send_text_delivers q ih)
  qed
qed

lemma broadcast_loop_size_changes:
  assumes "\<forall>j<k. during j = []"
    and "k < n"
  shows "length (connections w) = n \<Longrightarrow> pos \<le> k \<Longrightarrow>
     \<forall>j\<le>k. raises (snd (connections w ! j)) = None \<Longrightarrow>
     length (connections (registry_events (during k) w)) \<noteq> n \<Longrightarrow>
     broadcast_loop raises during left_open n pos frame w =
     (Some (RuntimeError (lit ''dictionary changed size during iteration'')),
      registry_events (during k)
        (w\<lparr>sent := sent w @
             map (\<lambda>c. (c, frame)) (take (Suc k - pos) (drop pos (map snd (connections w))))\<rparr>))"
proof (induction "k - pos" arbitrary: pos w)
  case 0
  then have pos: "pos = k" by simp
  let ?c = "snd (connections w ! k)"
  let ?w1 = "w\<lparr>sent := sent w @ [(?c, frame)]\<rparr>"
  from "0.prems"(3) have ok: "raises ?c = None" by simp
  from assms(2) "0.prems"(1)
  have dr: "take (Suc 0) (drop k (map snd (connections w))) = [?c]"
    by (simp add: take_Suc_conv_app_nth Cons_nth_drop_Suc[symmetric])
  have size: "length (connections (registry_events (during k) ?w1)) \<noteq> n"
    using "0.prems"(4) by (simp add: registry_events_sent)
  have "broadcast_loop raises during left_open n k frame w =
        broadcast_loop raises during left_open n (Suc k) frame (registry_events (during k) ?w1)"
    using assms(2) "0.prems"(1) ok size
    by (subst broadcast_loop.simps) (simp add: send_text_delivers)
  also have "\<dots> = (Some (RuntimeError (lit ''dictionary changed size during iteration'')),
      registry_events (during k) ?w1)"
    using size by (subst broadcast_loop.simps) simp
  finally show ?case using pos dr by simp
next
  case (Suc d)
  then have pos: "pos < k" by simp
  let ?c = "snd (connections w ! pos)"
  let ?w1 = "w\<lparr>sent := sent w @ [(?c, frame)]\<rparr>"
  from pos Suc.prems(3) have ok: "raises ?c = None" by simp
  from pos assms(1) have q: "during pos = []" by simp
  from pos assms(2) Suc.prems(1)
  have dr: "take (Suc k - pos) (drop pos (map snd (connections w))) =
            ?c # take (Suc k - Suc pos) (drop (Suc pos) (map snd (connections w)))"
    by (simp add: Cons_nth_drop_Suc[symmetric] Suc_diff_le)
  have ih: "broadcast_loop raises during left_open n (Suc pos) frame ?w1 =
     (Some (RuntimeError (lit ''dictionary changed size during iteration'')),
      registry_events (during k)
        (?w1\<lparr>sent := sent ?w1 @
             map (\<lambda>c. (c, frame)) (take (Suc k - Suc pos) (drop (Suc pos) (map snd (connections ?w1))))\<rparr>))"
  proof (rule Suc.hyps(1))
    from Suc.hyps(2) pos show "d = k - Suc pos" by simp
    from Suc.prems(1) show "length (connections ?w1) = n" by simp
    from pos show "Suc pos \<le> k" by simp
    from Suc.prems(3) show "\<forall>j\<le>k. raises (snd (connections ?w1 ! j)) = None" by simp
    from Suc.prems(4) show "length (connections (registry_events (during k) ?w1)) \<noteq> n"
      by (simp add: registry_events_sent)
  qed
  from pos assms(2) Suc.prems(1) ok show ?case
    by (subst broadcast_loop.simps) (simp add: send_text_delivers q ih dr)
qed


text \<open>
  C3, as the code has it. \<open>broadcast\<close> walks the live registry in its order. While no
  other session touches the registry, it sends the frame up to the first channel whose
  send raises: that exception leaves \<open>broadcast\<close>, the channels before it have got the
  frame and the channels after it have not; and when no send raises either, every
  registered channel gets the frame. When the size of the registry changes while a send is
  awaited, the next step of the loop raises \<open>RuntimeError\<close>: the channels up to that send
  have got the frame and the others have not, though no send raised.
\<close>

theorem broadcast_live_view:
  "((\<forall>k < length (connections w). during k = []) \<longrightarrow>
      broadcast raises during left_open frame w =
        (case find (\<lambda>c. raises c \<noteq> None) (map snd (connections w)) of
           None \<Rightarrow> None
         | Some c \<Rightarrow> raises c,
         w\<lparr>sent := sent w @
              map (\<lambda>c. (c, frame)) (takeWhile (\<lambda>c. raises c = None) (map snd (connections w)))\<rparr>))
   \<and> ((\<forall>k < length (connections w). during k = []) \<and>
        (\<forall>c \<in> set (map snd (connections w)). raises c = None) \<longrightarrow>
      broadcast raises during left_open frame w =
        (None, w\<lparr>sent := sent w @ map (\<lambda>c. (c, frame)) (map snd (connections w))\<rparr>))
   \<and> (k < length (connections w) \<and> (\<forall>j<k. during j = []) \<and>
        (\<forall>j\<le>k. raises (snd (connections w ! j)) = None) \<and>
        length (connections (registry_events (during k) w)) \<noteq> length (connections w) \<longrightarrow>
      broadcast raises during left_open frame w =
        (Some (RuntimeError (lit ''dictionary changed size during iteration'')),
         registry_events (during k)
           (w\<lparr>sent := sent w @
                map (\<lambda>c. (c, frame)) (take (Suc k) (map snd (connections w)))\<rparr>)))"
proof (intro conjI impI)
  assume q: "\<forall>k < length (connections w). during k = []"
  from broadcast_loop_quiet[OF q refl, of 0 raises left_open frame]
  show "broadcast raises during left_open frame w =
        (case find (\<lambda>c. raises c \<noteq> None) (map snd (connections w)) of
           None \<Rightarrow> None
         | Some c \<Rightarrow> raises c,
         w\<lparr>sent := sent w @
              map (\<lambda>c. (c, frame)) (takeWhile (\<lambda>c. raises c = None) (map snd (connections w)))\<rparr>)"
    by (simp add: broadcast_def)
next
  assume a: "(\<forall>k < length (connections w). during k = []) \<and>
        (\<forall>c \<in> set (map snd (connections w)). raises c = None)"
  have all: "takeWhile (\<lambda>c. raises c = None) chans = chans \<and> find (\<lambda>c. raises c \<noteq> None) chans = None"
    if "\<forall>c \<in> set chans. raises c = None" for chans
    using that by (induction chans) auto
  from a all[of "map snd (connections w)"]
  have t: "takeWhile (\<lambda>c. raises c = None) (map snd (connections w)) = map snd (connections w)"
    and f: "find (\<lambda>c. raises c \<noteq> None) (map snd (connections w)) = None"
    by simp_all
  from a have q: "\<forall>k < length (connections w). during k = []" by simp
  have "broadcast raises during left_open frame w =
        (case find (\<lambda>c. raises c \<noteq> None) (map snd (connections w)) of
           None \<Rightarrow> None
         | Some c \<Rightarrow> raises c,
         w\<lparr>sent := sent w @
              map (\<lambda>c. (c, frame)) (takeWhile (\<lambda>c. raises c = None) (map snd (connections w)))\<rparr>)"
    using broadcast_loop_quiet[OF q refl, of 0 raises left_open frame] by (simp add: broadcast_def)
  then show "broadcast raises during left_open frame w =
        (None, w\<lparr>sent := sent w @ map (\<lambda>c. (c, frame)) (map snd (connections w))\<rparr>)"
    unfolding t f by simp
next
  assume a: "k < length (connections w) \<and> (\<forall>j<k. during j = []) \<and>
        (\<forall>j\<le>k. raises (snd (connections w ! j)) = None) \<and>
        length (connections (registry_events (during k) w)) \<noteq> length (connections w)"
  then have 1: "\<forall>j<k. during j = []" and 2: "k < length (connections w)"
    and 3: "\<forall>j\<le>k. raises (snd (connections w ! j)) = None"
    and 4: "length (connections (registry_events (during k) w)) \<noteq> length (connections w)"
    by simp_all
  from broadcast_loop_size_changes[OF 1 2 refl _ 3 4, of 0 left_open frame]
  show "broadcast raises during left_open frame w =
        (Some (RuntimeError (lit ''dictionary changed size during iteration'')),
         registry_events (during k)
           (w\<lparr>sent := sent w @
                map (\<lambda>c. (c, frame)) (take (Suc k) (map snd (connections w)))\<rparr>))"
    by (simp add: broadcast_def)
qed

theorem broadcast_live_view_witness:
  "broadcast no_channel_gone quiet ends_there (Text (lit ''news''))
        (initial_world\<lparr>connections := [(lit ''a'', 1), (lit ''b'', 2)]\<rparr>) =
      (None, initial_world\<lparr>connections := [(lit ''a'', 1), (lit ''b'', 2)],
                            sent := [(1, Text (lit ''news'')), (2, Text (lit ''news''))]\<rparr>)
   \<and> broadcast first_channel_gone quiet ends_there (Text (lit ''news''))
        (initial_world\<lparr>connections := [(lit ''a'', 1), (lit ''b'', 2)]\<rparr>) =
      (Some (RuntimeError (lit ''closed'')),
       initial_world\<lparr>connections := [(lit ''a'', 1), (lit ''b'', 2)]\<rparr>)
   \<and> broadcast no_channel_gone c_leaves ends_there (Text (lit ''news''))
        (initial_world\<lparr>connections := [(lit ''a'', 1), (lit ''b'', 2), (lit ''c'', 3)]\<rparr>) =
      (Some (RuntimeError (lit ''dictionary changed size during iteration'')),
       initial_world\<lparr>connections := [(lit ''a'', 1), (lit ''b'', 2)],
                     sent := [(1, Text (lit ''news''))],
                     logged := [InfoDisconnected (lit ''c'') 2]\<rparr>)"
proof -
  let ?ab = "initial_world\<lparr>connections := [(lit ''a'', 1), (lit ''b'', 2)]\<rparr>"
  let ?abc = "initial_world\<lparr>connections := [(lit ''a'', 1), (lit ''b'', 2), (lit ''c'', 3)]\<rparr>"
  have q: "\<forall>k < length (connections ?ab). quiet k = []" by (simp add: quiet_def)
  have fine: "\<forall>c \<in> set (map snd (connections ?ab)). no_channel_gone c = None"
    by (simp add: no_channel_gone_def)
  note t1 = broadcast_live_view[of ?ab quiet no_channel_gone ends_there "Text (lit ''news'')" 0]
  from t1 q fine
  have "broadcast no_channel_gone quiet ends_there (Text (lit ''news'')) ?ab =
        (None, ?ab\<lparr>sent := sent ?ab @ map (\<lambda>c. (c, Text (lit ''news''))) (map snd (connections ?ab))\<rparr>)"
    by blast
  then have 1: "broadcast no_channel_gone quiet ends_there (Text (lit ''news'')) ?ab =
      (None, initial_world\<lparr>connections := [(lit ''a'', 1), (lit ''b'', 2)],
                            sent := [(1, Text (lit ''news'')), (2, Text (lit ''news''))]\<rparr>)"
    by (simp add: initial_world_def)
  note t2 = broadcast_live_view[of ?ab quiet first_channel_gone ends_there "Text (lit ''news'')" 0]
  from t2 q
  have "broadcast first_channel_gone quiet ends_there (Text (lit ''news'')) ?ab =
        (case find (\<lambda>c. first_channel_gone c \<noteq> None) (map snd (connections ?ab)) of
           None \<Rightarrow> None
         | Some c \<Rightarrow> first_channel_gone c,
         ?ab\<lparr>sent := sent ?ab @
              map (\<lambda>c. (c, Text (lit ''news'')))
                (takeWhile (\<lambda>c. first_channel_gone c = None) (map snd (connections ?ab)))\<rparr>)"
    by blast
  then have 2: "broadcast first_channel_gone quiet ends_there (Text (lit ''news'')) ?ab =
      (Some (RuntimeError (lit ''closed'')), ?ab)"
    by (simp add: first_channel_gone_def initial_world_def)
  have h: "0 < length (connections ?abc) \<and> (\<forall>j<0. c_leaves j = []) \<and>
        (\<forall>j\<le>0. no_channel_gone (snd (connections ?abc ! j)) = None) \<and>
        length (connections (registry_events (c_leaves 0) ?abc)) \<noteq> length (connections ?abc)"
    by (simp add: c_leaves_def no_channel_gone_def disconnect_def logger_def initial_world_def lit_def)
  note t3 = broadcast_live_view[of ?abc c_leaves no_channel_gone ends_there "Text (lit ''news'')" 0]
  from t3 h
  have "broadcast no_channel_gone c_leaves ends_there (Text (lit ''news'')) ?abc =
        (Some (RuntimeError (lit ''dictionary changed size during iteration'')),
         registry_events (c_leaves 0)
           (?abc\<lparr>sent := sent ?abc @
                map (\<lambda>c. (c, Text (lit ''news''))) (take (Suc 0) (map snd (connections ?abc)))\<rparr>))"
    by blast
  then have 3: "broadcast no_channel_gone c_leaves ends_there (Text (lit ''news'')) ?abc =
      (Some (RuntimeError (lit ''dictionary changed size during iteration'')),
       initial_world\<lparr>connections := [(lit ''a'', 1), (lit ''b'', 2)],
                     sent := [(1, Text (lit ''news''))],
                     logged := [InfoDisconnected (lit ''c'') 2]\<rparr>)"
    by (simp add: c_leaves_def disconnect_def logger_def initial_world_def lit_def)
  from 1 2 3 show ?thesis by (intro conjI)
qed

text \<open>
  C3 as stated fails in both halves. With \<open>a\<close> and \<open>b\<close> registered and the channel of
  \<open>a\<close> gone, the channel of \<open>b\<close> does not fail and does not get the frame. And with
  \<open>a\<close>, \<open>b\<close> and \<open>c\<close> registered and no channel failing, \<open>c\<close> disconnecting during the
  first send ends the broadcast with \<open>RuntimeError\<close>: \<open>b\<close> was registered at the call and
  still is, and does not get the frame.
\<close>

theorem broadcast_counterexample:
  "map_of (connections (initial_world\<lparr>connections := [(lit ''a'', 1), (lit ''b'', 2)]\<rparr>)) (lit ''b'') = Some 2
   \<and> first_channel_gone 2 = None
   \<and> (2, Text (lit ''news'')) \<notin> set (sent (snd (broadcast first_channel_gone quiet ends_there
        (Text (lit ''news'')) (initial_world\<lparr>connections := [(lit ''a'', 1), (lit ''b'', 2)]\<rparr>))))
   \<and> map_of (connections (initial_world\<lparr>connections := [(lit ''a'', 1), (lit ''b'', 2), (lit ''c'', 3)]\<rparr>))
        (lit ''b'') = Some 2
   \<and> no_channel_gone 1 = None \<and> no_channel_gone 2 = None \<and> no_channel_gone 3 = None
   \<and> fst (broadcast no_channel_gone c_leaves ends_there (Text (lit ''news''))
        (initial_world\<lparr>connections := [(lit ''a'', 1), (lit ''b'', 2), (lit ''c'', 3)]\<rparr>)) =
      Some (RuntimeError (lit ''dictionary changed size during iteration''))
   \<and> map_of (connections (snd (broadcast no_channel_gone c_leaves ends_there (Text (lit ''news''))
        (initial_world\<lparr>connections := [(lit ''a'', 1), (lit ''b'', 2), (lit ''c'', 3)]\<rparr>)))) (lit ''b'') =
      Some 2
   \<and> (2, Text (lit ''news'')) \<notin> set (sent (snd (broadcast no_channel_gone c_leaves ends_there
        (Text (lit ''news''))
        (initial_world\<lparr>connections := [(lit ''a'', 1), (lit ''b'', 2), (lit ''c'', 3)]\<rparr>))))"
  by (simp add: broadcast_def broadcast_loop.simps send_text_def first_channel_gone_def
      no_channel_gone_def quiet_def c_leaves_def disconnect_def logger_def initial_world_def lit_def)

subsection \<open>Append-only histories\<close>

lemma chat_history_grows:
  assumes "map_of (conversation_history w) k = Some entries"
  shows "\<exists>entries'. map_of (conversation_history (snd (chat generate utcnow request w))) k = Some entries'
            \<and> prefix entries entries'"
proof -
  obtain cid w1 where id: "conversation_id_or_new utcnow request w = (cid, w1)"
    by (cases "conversation_id_or_new utcnow request w")
  let ?user = "\<lparr>role = lit ''user'', content = message request,
                timestamp = isoformat (utcnow (ticks w1))\<rparr>"
  let ?g = "generate (JStr (message request)) (model_argument request)
              (Some (messages (get_history cid w) @ [?user]))"
  have "\<exists>new. map_of (conversation_history (snd (chat generate utcnow request w))) =
          (map_of (conversation_history w))(cid \<mapsto> messages (get_history cid w) @ new)"
  proof (cases ?g)
    case (Inl e)
    from chat_try_generate_raises(2)[where generate = generate, OF id Inl]
    show ?thesis unfolding chat_snd_history by blast
  next
    case (Inr ai)
    from chat_try_generate_returns(2)[where generate = generate, OF id Inr]
    show ?thesis unfolding chat_snd_history by blast
  qed
  then obtain new where new: "map_of (conversation_history (snd (chat generate utcnow request w))) =
          (map_of (conversation_history w))(cid \<mapsto> messages (get_history cid w) @ new)" ..
  show ?thesis
  proof (cases "k = cid")
    case True
    with assms have "messages (get_history cid w) = entries" by (simp add: get_history_def)
    with new True show ?thesis by simp
  next
    case False
    with new assms show ?thesis by simp
  qed
qed

lemma health_check_history: "conversation_history (snd (health_check utcnow w)) = conversation_history w"
  by (simp add: health_check_def now_def)

text \<open>
  C6. The history of a conversation is append-only: for every operation of the system (a
  chat request, a history read, a WebSocket connection with all its frames, stats, health,
  the model list) and every conversation the store knows before it, the conversation is
  known after it and its entries before are a prefix of its entries after.
\<close>

theorem history_append_only:
  assumes "map_of (conversation_history w) cid = Some entries"
  shows "\<exists>entries'. map_of (conversation_history (perform generate utcnow raises op w)) cid = Some entries'
            \<and> prefix entries entries'"
proof (cases op)
  case (PostChat request)
  with chat_history_grows[OF assms, of generate utcnow request] show ?thesis
    by (simp add: perform_def)
next
  case (WebSocket ws client_id frames)
  with assms show ?thesis by (simp add: perform_def websocket_endpoint_history)
next
  case GetHealth
  with assms show ?thesis by (simp add: perform_def health_check_history)
qed (use assms in \<open>simp_all add: perform_def\<close>)

theorem history_append_only_witness:
  "map_of (conversation_history
      (initial_world\<lparr>conversation_history :=
         [(lit ''c1'', [\<lparr>role = lit ''user'', content = lit ''Hello'', timestamp = lit ''t0''\<rparr>])]\<rparr>))
      (lit ''c1'') =
     Some [\<lparr>role = lit ''user'', content = lit ''Hello'', timestamp = lit ''t0''\<rparr>]
   \<and> (\<exists>entries'.
        map_of (conversation_history
          (perform (generate_response ascii_lower) example_clock no_channel_gone
             (PostChat \<lparr>message = lit ''Tell me more'', conversation_id = Some (lit ''c1''),
                        model = Some (lit ''quantum-ai'')\<rparr>)
             (initial_world\<lparr>conversation_history :=
                [(lit ''c1'', [\<lparr>role = lit ''user'', content = lit ''Hello'', timestamp = lit ''t0''\<rparr>])]\<rparr>)))
          (lit ''c1'') = Some entries'
        \<and> prefix [\<lparr>role = lit ''user'', content = lit ''Hello'', timestamp = lit ''t0''\<rparr>] entries')"
proof -
  have known: "map_of (conversation_history
      (initial_world\<lparr>conversation_history :=
         [(lit ''c1'', [\<lparr>role = lit ''user'', content = lit ''Hello'', timestamp = lit ''t0''\<rparr>])]\<rparr>))
      (lit ''c1'') =
     Some [\<lparr>role = lit ''user'', content = lit ''Hello'', timestamp = lit ''t0''\<rparr>]"
    by simp
  from known history_append_only[OF known] show ?thesis by (rule conjI)
qed


end
